theory Spec2Isabelle
  imports Main "HOL-Library.Word" "HOL-Library.Sublist"
begin

section \<open>JavaScript strings\<close>

text \<open>
  A JavaScript string is a sequence of 16-bit code units. \<open>str\<close> turns an Isabelle
  string literal (8-bit characters) into such a sequence, so the literals of the source
  can be written as they are.
\<close>

type_synonym jschar = "16 word"
type_synonym jsstring = "jschar list"

definition str :: "string \<Rightarrow> jsstring" where
  "str cs = map of_char cs"

text \<open>ECMAScript \<open>LineTerminator\<close>: LF, CR, LS, PS.\<close>

definition is_line_terminator :: "jschar \<Rightarrow> bool" where
  "is_line_terminator c = (c = 0xA \<or> c = 0xD \<or> c = 0x2028 \<or> c = 0x2029)"

text \<open>
  The class \<open>\s\<close> of regular expressions, which is also what \<open>String.prototype.trim\<close>
  strips: ECMAScript \<open>WhiteSpace\<close> (TAB, VT, FF, SP, NBSP, the Unicode space
  separators, ZWNBSP) and \<open>LineTerminator\<close>.
\<close>

definition is_ws :: "jschar \<Rightarrow> bool" where
  "is_ws c = (c = 0x9 \<or> c = 0xB \<or> c = 0xC \<or> c = 0x20 \<or> c = 0xA0 \<or> c = 0x1680
     \<or> (0x2000 \<le> c \<and> c \<le> 0x200A) \<or> c = 0x202F \<or> c = 0x205F \<or> c = 0x3000
     \<or> c = 0xFEFF \<or> is_line_terminator c)"

text \<open>The class \<open>\w\<close>: ASCII letters, digits and the underscore.\<close>

definition is_digit :: "jschar \<Rightarrow> bool" where
  "is_digit c = (0x30 \<le> c \<and> c \<le> 0x39)"

definition is_word :: "jschar \<Rightarrow> bool" where
  "is_word c = (is_digit c \<or> (0x41 \<le> c \<and> c \<le> 0x5A) \<or> c = 0x5F \<or> (0x61 \<le> c \<and> c \<le> 0x7A))"

text \<open>\<open>s.trim()\<close>\<close>

definition trim :: "jsstring \<Rightarrow> jsstring" where
  "trim s = rev (dropWhile is_ws (rev (dropWhile is_ws s)))"

text \<open>\<open>s.includes(t)\<close> and \<open>s.startsWith(t)\<close>\<close>

definition includes_js :: "jsstring \<Rightarrow> jsstring \<Rightarrow> bool" where
  "includes_js s t = list_ex (prefix t) (suffixes s)"

definition startsWith :: "jsstring \<Rightarrow> jsstring \<Rightarrow> bool" where
  "startsWith s t = prefix t s"

text \<open>\<open>parts.join(sep)\<close>\<close>

fun join :: "jsstring \<Rightarrow> jsstring list \<Rightarrow> jsstring" where
  "join sep [] = []"
| "join sep [x] = x"
| "join sep (x # y # ys) = x @ sep @ join sep (y # ys)"

text \<open>ASCII upper-casing, as \<open>Element.tagName\<close> applies it to the local name.\<close>

definition ascii_upper :: "jschar \<Rightarrow> jschar" where
  "ascii_upper c = (if 0x61 \<le> c \<and> c \<le> 0x7A then c - 0x20 else c)"

text \<open>ASCII lower-casing, and equality of strings up to the case of ASCII letters.\<close>

definition ascii_lower :: "jschar \<Rightarrow> jschar" where
  "ascii_lower c = (if 0x41 \<le> c \<and> c \<le> 0x5A then c + 0x20 else c)"

definition eq_ascii_ci :: "jsstring \<Rightarrow> jsstring \<Rightarrow> bool" where
  "eq_ascii_ci s t = (map ascii_lower s = map ascii_lower t)"

section \<open>Regular expressions\<close>

text \<open>
  The fragment of ECMAScript regular expressions that the converter uses, with the
  backtracking semantics of the language: a character class, the assertions \<open>^\<close>
  (under the \<open>m\<close> flag), \<open>\b\<close> and \<open>(?!r)\<close>, concatenation, and the quantifier
  \<open>r{min,max}\<close>, greedy or lazy.

  \<open>ends r prev s\<close> lists, in the order in which the backtracking matcher tries them, the
  numbers of code units of \<open>s\<close> that a match of \<open>r\<close> at the start of \<open>s\<close> may consume;
  \<open>prev\<close> is the code unit before \<open>s\<close> in the subject, if any.
\<close>

datatype re =
    Cls "jschar \<Rightarrow> bool"
  | Bol
  | Wordb
  | NotAhead re
  | Cat re re
  | Rep re nat "nat option" bool

definition prev_after :: "jschar option \<Rightarrow> jsstring \<Rightarrow> nat \<Rightarrow> jschar option" where
  "prev_after prev s n = (if n = 0 then prev else Some (s ! (n - 1)))"

text \<open>
  The quantifier: an iteration that consumes nothing is refused once the minimum is
  reached (the \<open>RepeatMatcher\<close> of the language), so the iterations are bounded by
  \<open>min + length s\<close>, which is the fuel given below.
\<close>

primrec rep_iter ::
  "(jschar option \<Rightarrow> jsstring \<Rightarrow> nat list) \<Rightarrow> bool \<Rightarrow> nat \<Rightarrow> nat \<Rightarrow> nat option
     \<Rightarrow> jschar option \<Rightarrow> jsstring \<Rightarrow> nat list" where
  "rep_iter m greedy 0 mn mx prev s = (if mn = 0 then [0] else [])"
| "rep_iter m greedy (Suc fuel) mn mx prev s =
    (let stop = (if mn = 0 then [0] else []);
         more = (if mx = Some 0 then [] else
                  concat (map (\<lambda>n. if n = 0 \<and> mn = 0 then []
                                     else map ((+) n)
                                            (rep_iter m greedy fuel (mn - 1) (map_option (\<lambda>k. k - 1) mx)
                                               (prev_after prev s n) (drop n s)))
                              (m prev s)))
     in if greedy then more @ stop else stop @ more)"

primrec ends :: "re \<Rightarrow> jschar option \<Rightarrow> jsstring \<Rightarrow> nat list" where
  "ends (Cls P) prev s = (case s of [] \<Rightarrow> [] | c # _ \<Rightarrow> if P c then [1] else [])"
| "ends Bol prev s =
     (case prev of None \<Rightarrow> [0] | Some p \<Rightarrow> if is_line_terminator p then [0] else [])"
| "ends Wordb prev s =
     (if (case prev of None \<Rightarrow> False | Some p \<Rightarrow> is_word p)
           \<noteq> (case s of [] \<Rightarrow> False | c # _ \<Rightarrow> is_word c)
      then [0] else [])"
| "ends (NotAhead r) prev s = (if ends r prev s = [] then [0] else [])"
| "ends (Cat r1 r2) prev s =
     concat (map (\<lambda>n. map ((+) n) (ends r2 (prev_after prev s n) (drop n s))) (ends r1 prev s))"
| "ends (Rep r mn mx greedy) prev s = rep_iter (ends r) greedy (mn + length s) mn mx prev s"

text \<open>
  A pattern is the list of its top-level factors, so that a capture group is one
  factor: \<open>match_parts\<close> lists the ways to match the factors one after the other, each
  as the list of the lengths consumed by the factors, and \<open>exec\<close> is the first of them,
  as the matcher returns it.
\<close>

primrec match_parts :: "re list \<Rightarrow> jschar option \<Rightarrow> jsstring \<Rightarrow> nat list list" where
  "match_parts [] prev s = [[]]"
| "match_parts (r # rs) prev s =
     concat (map (\<lambda>n. map ((#) n) (match_parts rs (prev_after prev s n) (drop n s)))
                 (ends r prev s))"

definition exec :: "re list \<Rightarrow> jschar option \<Rightarrow> jsstring \<Rightarrow> nat list option" where
  "exec rs prev s = (case match_parts rs prev s of [] \<Rightarrow> None | ns # _ \<Rightarrow> Some ns)"

text \<open>The substrings matched by the factors.\<close>

primrec pieces :: "nat list \<Rightarrow> jsstring \<Rightarrow> jsstring list" where
  "pieces [] s = []"
| "pieces (n # ns) s = take n s # pieces ns (drop n s)"

text \<open>
  \<open>s.replace(/re/g, f)\<close>: the subject is scanned from the left; where the pattern
  matches, the replacement computed from the matched pieces is emitted and the scan
  resumes after the match (\<open>skip\<close> counts the code units of the match still to pass);
  elsewhere the code unit is copied. After an empty match the scan advances by one code
  unit, which is copied.
\<close>

fun replace_scan ::
  "re list \<Rightarrow> (jsstring list \<Rightarrow> jsstring) \<Rightarrow> nat \<Rightarrow> jschar option \<Rightarrow> jsstring \<Rightarrow> jsstring" where
  "replace_scan rs f skip prev [] =
     (if skip = 0 then (case exec rs prev [] of Some ns \<Rightarrow> f (pieces ns []) | None \<Rightarrow> [])
      else [])"
| "replace_scan rs f (Suc k) prev (c # cs) = replace_scan rs f k (Some c) cs"
| "replace_scan rs f 0 prev (c # cs) =
     (case exec rs prev (c # cs) of
        None \<Rightarrow> c # replace_scan rs f 0 (Some c) cs
      | Some ns \<Rightarrow>
          (if sum_list ns = 0
           then f (pieces ns (c # cs)) @ c # replace_scan rs f 0 (Some c) cs
           else f (pieces ns (c # cs)) @ replace_scan rs f (sum_list ns - 1) (Some c) cs))"

definition replace_all :: "re list \<Rightarrow> (jsstring list \<Rightarrow> jsstring) \<Rightarrow> jsstring \<Rightarrow> jsstring" where
  "replace_all rs f s = replace_scan rs f 0 None s"

text \<open>\<open>s.match(/re/)?.[0]\<close>: the text of the leftmost match, if there is one.\<close>

fun match_first :: "re list \<Rightarrow> jschar option \<Rightarrow> jsstring \<Rightarrow> jsstring option" where
  "match_first rs prev [] =
     (case exec rs prev [] of Some ns \<Rightarrow> Some [] | None \<Rightarrow> None)"
| "match_first rs prev (c # cs) =
     (case exec rs prev (c # cs) of
        Some ns \<Rightarrow> Some (take (sum_list ns) (c # cs))
      | None \<Rightarrow> match_first rs (Some c) cs)"

text \<open>Abbreviations for the notation of the source's patterns.\<close>

definition lit :: "char \<Rightarrow> re" where
  "lit c = Cls (\<lambda>x. x = of_char c)"

definition lit_ci :: "char \<Rightarrow> re" where
  "lit_ci c = Cls (\<lambda>x. ascii_upper x = ascii_upper (of_char c))"

definition not_lit :: "char \<Rightarrow> re" where
  "not_lit c = Cls (\<lambda>x. x \<noteq> of_char c)"

definition star :: "re \<Rightarrow> re" where
  "star r = Rep r 0 None True"

definition star_lazy :: "re \<Rightarrow> re" where
  "star_lazy r = Rep r 0 None False"

definition plus :: "re \<Rightarrow> re" where
  "plus r = Rep r 1 None True"

definition plus_lazy :: "re \<Rightarrow> re" where
  "plus_lazy r = Rep r 1 None False"

fun cats :: "re list \<Rightarrow> re" where
  "cats [] = Rep Bol 0 (Some 0) True"
| "cats [r] = r"
| "cats (r # rs) = Cat r (cats rs)"

section \<open>The text passes of the converter\<close>

text \<open>\<open>/\s+/g\<close>\<close>

definition re_spaces :: "re list" where
  "re_spaces = [plus (Cls is_ws)]"

text \<open>
  \<open>cleanAttribute\<close>: \<open>attr ? attr.trim().replace(/\s+/g, ' ') : ''\<close>; an absent
  attribute is \<open>None\<close>, and the empty string is falsy.
\<close>

definition cleanAttribute :: "jsstring option \<Rightarrow> jsstring" where
  "cleanAttribute attr =
     (case attr of
        None \<Rightarrow> []
      | Some a \<Rightarrow> if a = [] then [] else replace_all re_spaces (\<lambda>_. str '' '') (trim a))"

text \<open>\<open>/<script\b[^<]*(?:(?!<\/script>)<[^<]*)*<\/script>/gi\<close>, and the same for \<open>style\<close>.\<close>

definition re_element :: "string \<Rightarrow> re list" where
  "re_element name =
     [cats (map lit_ci (''<'' @ name)), Wordb, star (not_lit CHR ''<''),
      star (cats [NotAhead (cats (map lit_ci (''</'' @ name @ ''>''))),
                  lit CHR ''<'', star (not_lit CHR ''<'')]),
      cats (map lit_ci (''</'' @ name @ ''>''))]"

text \<open>\<open>/<!--[\s\S]*?-->/g\<close>\<close>

definition re_comment :: "re list" where
  "re_comment = [cats (map lit ''<!--''), star_lazy (Cls (\<lambda>_. True)), cats (map lit ''-->'')]"

definition cleanHTML :: "jsstring \<Rightarrow> jsstring" where
  "cleanHTML html =
     (let html = replace_all (re_element ''script'') (\<lambda>_. []) html;
          html = replace_all (re_element ''style'') (\<lambda>_. []) html;
          html = replace_all re_comment (\<lambda>_. []) html
      in trim html)"

text \<open>
  \<open>/\[\s*([^\]\n]+?)\s*\]\s*\(\s*([^)]+)\s*\)/g\<close>: the link text is the factor of index 2,
  the URL the factor of index 8.
\<close>

definition re_link :: "re list" where
  "re_link =
     [lit CHR ''['', star (Cls is_ws),
      plus_lazy (Cls (\<lambda>c. c \<noteq> of_char CHR '']'' \<and> c \<noteq> 0xA)),
      star (Cls is_ws), lit CHR '']'', star (Cls is_ws), lit CHR ''('', star (Cls is_ws),
      plus (not_lit CHR '')''), star (Cls is_ws), lit CHR '')'']"

text \<open>\<open>/\n{3,}/g\<close>\<close>

definition re_blank_lines :: "re list" where
  "re_blank_lines = [Rep (Cls (\<lambda>c. c = 0xA)) 3 None True]"

text \<open>\<open>/^[ \t]+/gm\<close>\<close>

definition re_indent :: "re list" where
  "re_indent = [Bol, plus (Cls (\<lambda>c. c = 0x20 \<or> c = 0x9))]"

definition tidyMarkdown :: "jsstring \<Rightarrow> jsstring" where
  "tidyMarkdown markdown =
     (let normalizedMarkdown = replace_all re_link
            (\<lambda>m. let text = trim (replace_all re_spaces (\<lambda>_. str '' '') (m ! 2));
                      url = trim (replace_all re_spaces (\<lambda>_. []) (m ! 8))
                  in str ''['' @ text @ str '']('' @ url @ str '')'') markdown;
          normalizedMarkdown = replace_all re_blank_lines (\<lambda>_. str ''\<newline>\<newline>'') normalizedMarkdown;
          normalizedMarkdown = replace_all re_indent (\<lambda>_. []) normalizedMarkdown
      in trim normalizedMarkdown)"

section \<open>The document object model\<close>

text \<open>
  The parser (jsdom) is a collaborator of the converter; what the converter sees of it is
  a tree of elements, text and comments. An element carries its local name (lower case
  in an HTML document) and its attributes in source order.
\<close>

datatype node =
    Element (tag: jsstring) (attributes: "(jsstring \<times> jsstring) list") (childNodes: "node list")
  | Text jsstring
  | Comment jsstring

text \<open>
  The identity of an element is its position in the parsed tree: the list of child
  indices that leads to it from the root element, which is \<open>[]\<close>. \<open>elems\<close> lists the
  elements of a tree with their handles, in document order.
\<close>

type_synonym handle = "nat list"

fun elems :: "node \<Rightarrow> (handle \<times> node) list"
  and elems_list :: "nat \<Rightarrow> node list \<Rightarrow> (handle \<times> node) list" where
  "elems (Element t a cs) = ([], Element t a cs) # elems_list 0 cs"
| "elems (Text s) = []"
| "elems (Comment s) = []"
| "elems_list i [] = []"
| "elems_list i (c # cs) = map (\<lambda>(p, n). (i # p, n)) (elems c) @ elems_list (Suc i) cs"

text \<open>\<open>el.getAttribute(name)\<close>\<close>

fun getAttribute :: "node \<Rightarrow> jsstring \<Rightarrow> jsstring option" where
  "getAttribute (Element t a cs) name = map_of a name"
| "getAttribute _ name = None"

text \<open>\<open>node.textContent\<close>: the text of the descendants, in document order.\<close>

fun textContent :: "node \<Rightarrow> jsstring" where
  "textContent (Element t a cs) = concat (map textContent cs)"
| "textContent (Text s) = s"
| "textContent (Comment s) = []"

text \<open>\<open>el.tagName\<close>\<close>

fun tagName :: "node \<Rightarrow> jsstring" where
  "tagName (Element t a cs) = map ascii_upper t"
| "tagName _ = []"

text \<open>\<open>node.nodeName.toLowerCase()\<close>, for an element of an HTML document.\<close>

fun nodeName_lower :: "node \<Rightarrow> jsstring" where
  "nodeName_lower (Element t a cs) = t"
| "nodeName_lower (Text s) = str ''#text''"
| "nodeName_lower (Comment s) = str ''#comment''"

subsection \<open>Selectors\<close>

text \<open>
  The selectors of the source are compound selectors made of a type selector, \<open>#id\<close>,
  \<open>.class\<close>, \<open>[attr]\<close> and \<open>[attr="value"]\<close>, and comma-separated lists of them. A class
  selector matches one of the tokens of the \<open>class\<close> attribute, which ASCII whitespace
  separates. In a document in quirks mode, which is what the parser makes of an input
  without a doctype, class and ID selectors match without regard to the case of ASCII
  letters; otherwise, and for attribute values always, the comparison is exact.
\<close>

datatype simple_selector =
    TypeSel jsstring
  | IdSel jsstring
  | ClassSel jsstring
  | HasAttr jsstring
  | AttrEq jsstring jsstring

type_synonym selector = "simple_selector list list"

definition is_ascii_space :: "jschar \<Rightarrow> bool" where
  "is_ascii_space c = (c = 0x9 \<or> c = 0xA \<or> c = 0xC \<or> c = 0xD \<or> c = 0x20)"

fun tokens_acc :: "jsstring \<Rightarrow> jsstring \<Rightarrow> jsstring list" where
  "tokens_acc acc [] = (if acc = [] then [] else [rev acc])"
| "tokens_acc acc (c # cs) =
     (if is_ascii_space c then (if acc = [] then [] else [rev acc]) @ tokens_acc [] cs
      else tokens_acc (c # acc) cs)"

definition classList :: "node \<Rightarrow> jsstring list" where
  "classList n = (case getAttribute n (str ''class'') of None \<Rightarrow> [] | Some v \<Rightarrow> tokens_acc [] v)"

fun matches_simple :: "bool \<Rightarrow> simple_selector \<Rightarrow> node \<Rightarrow> bool" where
  "matches_simple quirks (TypeSel t) n = (nodeName_lower n = t)"
| "matches_simple quirks (IdSel i) n =
     (case getAttribute n (str ''id'') of
        None \<Rightarrow> False
      | Some v \<Rightarrow> if quirks then eq_ascii_ci v i else v = i)"
| "matches_simple quirks (ClassSel c) n =
     (if quirks then list_ex (\<lambda>token. eq_ascii_ci token c) (classList n)
      else c \<in> set (classList n))"
| "matches_simple quirks (HasAttr a) n = (getAttribute n a \<noteq> None)"
| "matches_simple quirks (AttrEq a v) n = (getAttribute n a = Some v)"

definition matches :: "bool \<Rightarrow> selector \<Rightarrow> node \<Rightarrow> bool" where
  "matches quirks sel n =
     list_ex (\<lambda>compound. list_all (\<lambda>s. matches_simple quirks s n) compound) sel"

text \<open>The selectors of the source, parsed.\<close>

definition type_sel :: "string \<Rightarrow> selector" where
  "type_sel t = [[TypeSel (str t)]]"

definition id_sel :: "string \<Rightarrow> selector" where
  "id_sel i = [[IdSel (str i)]]"

definition class_sel :: "string \<Rightarrow> selector" where
  "class_sel c = [[ClassSel (str c)]]"

definition attr_sel :: "string \<Rightarrow> string \<Rightarrow> selector" where
  "attr_sel a v = [[AttrEq (str a) (str v)]]"

definition type_attr_sel :: "string \<Rightarrow> string \<Rightarrow> string \<Rightarrow> selector" where
  "type_attr_sel t a v = [[TypeSel (str t), AttrEq (str a) (str v)]]"

definition type_has_attr_sel :: "string \<Rightarrow> string \<Rightarrow> selector" where
  "type_has_attr_sel t a = [[TypeSel (str t), HasAttr (str a)]]"

subsection \<open>The document and its mutations\<close>

text \<open>
  What the parser gives: the tree, the host name of the location of the document, and
  whether the document is in quirks mode.
\<close>

record page =
  page_tree :: node
  page_hostname :: jsstring
  page_quirks :: bool

text \<open>
  A document is what the parser gave and what the converter has done to it since: the
  handles of the elements on which \<open>remove()\<close> was called (each has lost the link to its
  parent), and the \<open>rows\<close> properties defined on table elements with
  \<open>Object.defineProperty\<close>.
\<close>

record document =
  documentElement :: node
  location_hostname :: jsstring
  quirks :: bool
  removed :: "handle list"
  own_rows :: "(handle \<times> handle list) list"

definition parsed :: "page \<Rightarrow> document" where
  "parsed p =
     \<lparr>documentElement = page_tree p, location_hostname = page_hostname p,
      quirks = page_quirks p, removed = [], own_rows = []\<rparr>"

text \<open>An element is in the document while neither it nor an ancestor has been removed.\<close>

definition attached :: "document \<Rightarrow> handle \<Rightarrow> bool" where
  "attached d e = (\<not> list_ex (\<lambda>q. prefix q e) (removed d))"

text \<open>
  \<open>c.contains(e)\<close>: \<open>e\<close> is \<open>c\<close> or a descendant of \<open>c\<close>, that is, \<open>c\<close> lies on the way to
  \<open>e\<close> in the parsed tree and no link between them has been cut.
\<close>

definition contains :: "document \<Rightarrow> handle \<Rightarrow> handle \<Rightarrow> bool" where
  "contains d c e = (prefix c e \<and> \<not> list_ex (\<lambda>q. strict_prefix c q \<and> prefix q e) (removed d))"

text \<open>\<open>el.remove()\<close>\<close>

definition remove :: "handle \<Rightarrow> document \<Rightarrow> document" where
  "remove e d = d\<lparr>removed := removed d @ [e]\<rparr>"

text \<open>\<open>document.querySelectorAll(sel)\<close> and \<open>document.querySelector(sel)\<close>\<close>

definition querySelectorAll :: "document \<Rightarrow> selector \<Rightarrow> handle list" where
  "querySelectorAll d sel =
     map fst (filter (\<lambda>(p, n). attached d p \<and> matches (quirks d) sel n)
                     (elems (documentElement d)))"

definition querySelector :: "document \<Rightarrow> selector \<Rightarrow> handle option" where
  "querySelector d sel = (case querySelectorAll d sel of [] \<Rightarrow> None | e # _ \<Rightarrow> Some e)"

text \<open>\<open>el.querySelectorAll(sel)\<close>: the descendants of \<open>el\<close> that match.\<close>

definition querySelectorAll_in :: "document \<Rightarrow> handle \<Rightarrow> selector \<Rightarrow> handle list" where
  "querySelectorAll_in d el sel =
     map fst (filter (\<lambda>(p, n). strict_prefix el p \<and> contains d el p \<and> matches (quirks d) sel n)
                     (elems (documentElement d)))"

text \<open>The node behind a handle.\<close>

definition node_of :: "document \<Rightarrow> handle \<Rightarrow> node option" where
  "node_of d e = map_of (elems (documentElement d)) e"

text \<open>\<open>el.parentElement\<close>: the root element has none.\<close>

definition parentElement :: "handle \<Rightarrow> handle option" where
  "parentElement e = (if e = [] then None else Some (butlast e))"

text \<open>
  \<open>document.body\<close>: the first child of the root \<open>html\<close> element that is a \<open>body\<close> or a
  \<open>frameset\<close> element.
\<close>

definition body :: "document \<Rightarrow> handle option" where
  "body d =
     (if attached d [] \<and> nodeName_lower (documentElement d) = str ''html''
      then map_option fst
             (find (\<lambda>(p, n). length p = 1 \<and> attached d p
                      \<and> (nodeName_lower n = str ''body'' \<or> nodeName_lower n = str ''frameset''))
                   (elems (documentElement d)))
      else None)"

text \<open>
  The tree below an element as it stands after the removals: \<open>prune R n\<close> drops from
  \<open>n\<close> the subtrees at the handles \<open>R\<close>, which are relative to \<open>n\<close>.
\<close>

definition below :: "nat \<Rightarrow> handle list \<Rightarrow> handle list" where
  "below i R = map tl (filter (\<lambda>q. q \<noteq> [] \<and> hd q = i) R)"

fun prune :: "handle list \<Rightarrow> node \<Rightarrow> node"
  and prune_list :: "handle list \<Rightarrow> nat \<Rightarrow> node list \<Rightarrow> node list" where
  "prune R (Element t a cs) = Element t a (prune_list R 0 cs)"
| "prune R (Text s) = Text s"
| "prune R (Comment s) = Comment s"
| "prune_list R i [] = []"
| "prune_list R i (c # cs) =
     (if [i] \<in> set R then [] else [prune (below i R) c]) @ prune_list R (Suc i) cs"

definition live_children :: "document \<Rightarrow> handle \<Rightarrow> node list" where
  "live_children d el =
     (case node_of d el of
        None \<Rightarrow> []
      | Some n \<Rightarrow>
          childNodes (prune (map (drop (length el)) (filter (prefix el) (removed d))) n))"

section \<open>The rendering engine and the collaborators\<close>

text \<open>
  What a JavaScript computation throws: an object that is an instance of \<open>Error\<close>, with
  the name of its class and its message, or any other value (here with its text).
\<close>

datatype js_thrown =
    ErrorObject (name: jsstring) (message: jsstring)
  | NonError jsstring

text \<open>
  A rule of the rendering engine (Turndown): a filter, which is a tag name, a list of
  tag names or a function of the node, and a replacement, which computes the Markdown
  of a node from the rendered text of its children and the node. A filter function is
  JavaScript code: it returns a boolean or throws.
\<close>

datatype rule_filter =
    TagFilter jsstring
  | TagsFilter "jsstring list"
  | FunFilter "node \<Rightarrow> js_thrown + bool"

record rule =
  rfilter :: rule_filter
  replacement :: "jsstring \<Rightarrow> node \<Rightarrow> jsstring"

record turndown_service =
  codeBlockStyle :: jsstring
  preformattedCode :: bool
  rules :: "(jsstring \<times> rule) list"
  keep_filters :: "rule_filter list"

datatype gfm_plugin = strikethrough | taskListItems | gfm

text \<open>
  The collaborators, which are not part of the repository and are parameters of the
  model: the parser, the serialisation behind \<open>innerHTML\<close>, the rendering of the engine
  and the rules it starts with, the rules and keep filters that each plugin of
  turndown-plugin-gfm registers, the reflection of a URL attribute by the property of
  the same name, MD5 in hexadecimal, the parsing of a date followed by \<open>toISOString\<close>
  (\<open>None\<close> for an invalid date), and the HTTP client.
\<close>

record collaborators =
  jsdom :: "jsstring \<Rightarrow> jsstring option \<Rightarrow> js_thrown + page"
  serialize :: "node list \<Rightarrow> jsstring"
  turndown :: "turndown_service \<Rightarrow> jsstring \<Rightarrow> js_thrown + jsstring"
  commonmark_rules :: "(jsstring \<times> rule) list"
  plugin_rules :: "gfm_plugin \<Rightarrow> (jsstring \<times> rule) list"
  plugin_keep :: "gfm_plugin \<Rightarrow> rule_filter list"
  reflect_url :: "jsstring \<Rightarrow> jsstring"
  md5_hex :: "jsstring \<Rightarrow> jsstring"
  date_toISOString :: "jsstring \<Rightarrow> jsstring option"
  axios_get :: "jsstring \<Rightarrow> js_thrown + jsstring"

text \<open>
  Modelled from the spec: the rule table of the rendering engine, which is a dependency
  and not under src/. Rules are registered into an ordered table and the first rule
  that matches a node applies, the most recently added rule coming first; \<open>keep\<close>
  filters are held apart from the rules; a plugin registers its rules and keep filters.
  The filters are tried in the order of the table, so a filter function that throws ends
  the search with what it threw, unless a rule in front of it has matched.
\<close>

definition addRule :: "jsstring \<Rightarrow> rule \<Rightarrow> turndown_service \<Rightarrow> turndown_service" where
  "addRule key r svc = svc\<lparr>rules := (key, r) # rules svc\<rparr>"

definition keep :: "rule_filter \<Rightarrow> turndown_service \<Rightarrow> turndown_service" where
  "keep f svc = svc\<lparr>keep_filters := f # keep_filters svc\<rparr>"

definition use :: "collaborators \<Rightarrow> gfm_plugin \<Rightarrow> turndown_service \<Rightarrow> turndown_service" where
  "use E p svc = fold (\<lambda>(k, r). addRule k r) (plugin_rules E p) (fold keep (plugin_keep E p) svc)"

fun filter_matches :: "rule_filter \<Rightarrow> node \<Rightarrow> js_thrown + bool" where
  "filter_matches (TagFilter t) n = Inr (t = nodeName_lower n)"
| "filter_matches (TagsFilter ts) n = Inr (nodeName_lower n \<in> set ts)"
| "filter_matches (FunFilter f) n = f n"

fun findRule ::
  "(jsstring \<times> rule) list \<Rightarrow> node \<Rightarrow> js_thrown + (jsstring \<times> rule) option" where
  "findRule [] n = Inr None"
| "findRule ((k, r) # rs) n =
     (case filter_matches (rfilter r) n of
        Inl e \<Rightarrow> Inl e
      | Inr True \<Rightarrow> Inr (Some (k, r))
      | Inr False \<Rightarrow> findRule rs n)"

definition new_TurndownService :: "collaborators \<Rightarrow> turndown_service" where
  "new_TurndownService E =
     \<lparr>codeBlockStyle = str ''fenced'', preformattedCode = True,
      rules = commonmark_rules E, keep_filters = []\<rparr>"

section \<open>The converter\<close>

subsection \<open>Options\<close>

datatype retain_images = none | alt | alt_p | all

datatype no_gfm = Bool bool | table

record WebToMarkdownOptions =
  retainImages :: "retain_images option"
  noGfm :: "no_gfm option"
  imgDataUrlToObjectUrl :: "bool option"
  customRules :: "(jsstring \<times> rule) list option"
  customKeep :: "rule_filter option"

text \<open>
  Truthiness of the option values: \<open>undefined\<close>, \<open>false\<close> and the empty string are falsy;
  \<open>'table'\<close>, an array and a function are truthy.
\<close>

fun truthy_noGfm :: "no_gfm option \<Rightarrow> bool" where
  "truthy_noGfm None = False"
| "truthy_noGfm (Some (Bool b)) = b"
| "truthy_noGfm (Some table) = True"

fun truthy_filter :: "rule_filter option \<Rightarrow> bool" where
  "truthy_filter None = False"
| "truthy_filter (Some (TagFilter t)) = (t \<noteq> [])"
| "truthy_filter (Some _) = True"

text \<open>\<open>customRules\<close> is held as \<open>Object.entries\<close> enumerates it.\<close>

subsection \<open>Construction\<close>

record WebToMarkdownConverter =
  turndownService :: turndown_service

definition remove_irrelevant :: rule where
  "remove_irrelevant =
     \<lparr>rfilter = TagsFilter (map str [''meta'', ''style'', ''script'', ''noscript'', ''link'',
                                      ''textarea'', ''select'']),
      replacement = (\<lambda>_ _. [])\<rparr>"

definition truncate_svg :: rule where
  "truncate_svg = \<lparr>rfilter = TagFilter (str ''svg''), replacement = (\<lambda>_ _. [])\<rparr>"

definition title_as_h1 :: rule where
  "title_as_h1 =
     \<lparr>rfilter = TagsFilter [str ''title''],
      replacement = (\<lambda>innerText _. innerText @ str ''\<newline>===============\<newline>'')\<rparr>"

text \<open>
  The identifier \<open>HTMLElement\<close>, which the filter of the data-URL rule reads. The file
  imports no binding of that name and assigns none, and Node.js, in which the converter
  runs (it imports \<open>crypto\<close>), has no global of that name; the class lives in the window
  of each parsed document only. Reading the identifier throws a \<open>ReferenceError\<close>.
\<close>

definition HTMLElement :: "js_thrown + (node \<Rightarrow> bool)" where
  "HTMLElement = Inl (ErrorObject (str ''ReferenceError'') (str ''HTMLElement is not defined''))"

text \<open>The properties \<open>src\<close> and \<open>alt\<close> of an image element.\<close>

definition img_src :: "collaborators \<Rightarrow> node \<Rightarrow> jsstring" where
  "img_src E n = (case getAttribute n (str ''src'') of None \<Rightarrow> [] | Some v \<Rightarrow> reflect_url E v)"

definition img_alt :: "node \<Rightarrow> jsstring" where
  "img_alt n = (case getAttribute n (str ''alt'') of None \<Rightarrow> [] | Some v \<Rightarrow> v)"

definition data_url_to_pseudo_object_url :: "collaborators \<Rightarrow> rule" where
  "data_url_to_pseudo_object_url E =
     \<lparr>rfilter = FunFilter (\<lambda>node.
         case HTMLElement of
           Inl e \<Rightarrow> Inl e
         | Inr is_instance \<Rightarrow>
             Inr (if \<not> is_instance node then False
                  else tagName node = str ''IMG''
                       \<and> (case getAttribute node (str ''src'') of
                             None \<Rightarrow> False
                           | Some v \<Rightarrow> startsWith v (str ''data:'')))),
      replacement = (\<lambda>content node.
         let src = img_src E node;
             alt = cleanAttribute (Some (img_alt node));
             hash = md5_hex E src
         in str ''!['' @ alt @ str ''](blob:'' @ hash @ str '')'')\<rparr>"

definition improved_paragraph :: rule where
  "improved_paragraph =
     \<lparr>rfilter = TagFilter (str ''p''),
      replacement = (\<lambda>innerText _.
         let trimmed = trim innerText
         in if trimmed = [] then []
            else replace_all re_blank_lines (\<lambda>_. str ''\<newline>\<newline>'') trimmed @ str ''\<newline>\<newline>'')\<rparr>"

definition configureTurndownService ::
  "collaborators \<Rightarrow> WebToMarkdownOptions option \<Rightarrow> turndown_service \<Rightarrow> turndown_service" where
  "configureTurndownService E options svc =
     (let svc = (if truthy_filter (Option.bind options customKeep)
                 then keep (the (Option.bind options customKeep)) svc else svc);
          svc = addRule (str ''remove-irrelevant'') remove_irrelevant svc;
          svc = addRule (str ''truncate-svg'') truncate_svg svc;
          svc = addRule (str ''title-as-h1'') title_as_h1 svc;
          svc = (if Option.bind options imgDataUrlToObjectUrl = Some True
                 then addRule (str ''data-url-to-pseudo-object-url'')
                        (data_url_to_pseudo_object_url E) svc
                 else svc);
          svc = (case Option.bind options customRules of
                   None \<Rightarrow> svc
                 | Some entries \<Rightarrow> fold (\<lambda>(k, v). addRule k v) entries svc);
          svc = addRule (str ''improved-paragraph'') improved_paragraph svc
      in if \<not> truthy_noGfm (Option.bind options noGfm)
         then (if Option.bind options noGfm = Some table
               then use E taskListItems (use E strikethrough svc)
               else use E gfm svc)
         else svc)"

definition new_WebToMarkdownConverter ::
  "collaborators \<Rightarrow> WebToMarkdownOptions option \<Rightarrow> WebToMarkdownConverter" where
  "new_WebToMarkdownConverter E options =
     \<lparr>turndownService = configureTurndownService E options (new_TurndownService E)\<rparr>"

subsection \<open>Content selection\<close>

definition contentSelectors :: "selector list" where
  "contentSelectors =
     [type_sel ''article'', attr_sel ''role'' ''main'', type_sel ''main'',
      id_sel ''main-content'', class_sel ''main-content'', id_sel ''content'',
      class_sel ''content'', id_sel ''main'', class_sel ''main'', class_sel ''post-content'',
      class_sel ''article-content'']"

definition selectorsToRemove :: "selector list" where
  "selectorsToRemove =
     [type_sel ''nav'', type_sel ''header'', type_sel ''footer'', id_sel ''header'',
      id_sel ''footer'', class_sel ''header'', class_sel ''footer'', class_sel ''navigation'',
      class_sel ''nav'', class_sel ''sidebar'', class_sel ''menu'', class_sel ''comments'',
      class_sel ''advertisement'', class_sel ''ads'', class_sel ''social-share'',
      class_sel ''related-posts'', attr_sel ''role'' ''navigation'',
      attr_sel ''role'' ''complementary'', attr_sel ''role'' ''banner'',
      attr_sel ''role'' ''contentinfo'']"

text \<open>\<open>'.navbox, .vertical-navbox, .sidebar, .mw-editsection, .mw-empty-elt'\<close>\<close>

definition wikipedia_chrome :: selector where
  "wikipedia_chrome =
     [[ClassSel (str ''navbox'')], [ClassSel (str ''vertical-navbox'')], [ClassSel (str ''sidebar'')],
      [ClassSel (str ''mw-editsection'')], [ClassSel (str ''mw-empty-elt'')]]"

text \<open>\<open>document.location?.hostname?.includes('wikipedia.org')\<close>\<close>

definition is_wikipedia :: "document \<Rightarrow> bool" where
  "is_wikipedia d = includes_js (location_hostname d) (str ''wikipedia.org'')"

text \<open>The first selector of the list that matches an element gives the element.\<close>

fun first_match :: "document \<Rightarrow> selector list \<Rightarrow> handle option" where
  "first_match d [] = None"
| "first_match d (selector # selectors) =
     (case querySelector d selector of
        Some element \<Rightarrow> Some element
      | None \<Rightarrow> first_match d selectors)"

text \<open>
  \<open>extractMainContent\<close> returns the element, \<open>None\<close> for \<open>null\<close>, and the document, which
  the Wikipedia branch mutates.
\<close>

definition extractMainContent :: "document \<Rightarrow> handle option \<times> document" where
  "extractMainContent d =
     (case (if is_wikipedia d then querySelector d (id_sel ''mw-content-text'') else None) of
        Some content \<Rightarrow>
          (Some content, fold remove (querySelectorAll_in d content wikipedia_chrome) d)
      | None \<Rightarrow>
          (case first_match d contentSelectors of
             Some element \<Rightarrow> (Some element, d)
           | None \<Rightarrow> (body d, d)))"

text \<open>
  The set \<open>contentElements\<close> of \<open>cleanupDocument\<close>, in insertion order: each element that
  a content selector matches, followed by its chain of parent elements.
\<close>

definition set_add :: "handle \<Rightarrow> handle list \<Rightarrow> handle list" where
  "set_add e S = (if e \<in> set S then S else S @ [e])"

function add_parents :: "handle option \<Rightarrow> handle list \<Rightarrow> handle list" where
  "add_parents None S = S"
| "add_parents (Some parent) S = add_parents (parentElement parent) (set_add parent S)"
  by pat_completeness auto
termination
  by (relation "measure (\<lambda>(p, S). case p of None \<Rightarrow> 0 | Some e \<Rightarrow> Suc (length e))")
     (auto simp: parentElement_def)

definition contentElements :: "document \<Rightarrow> handle list" where
  "contentElements d =
     fold (\<lambda>selector S.
             fold (\<lambda>el S. add_parents (parentElement el) (set_add el S))
                  (querySelectorAll d selector) S)
          contentSelectors []"

definition cleanupDocument :: "document \<Rightarrow> document" where
  "cleanupDocument d =
     (let contentElements = contentElements d
      in fold (\<lambda>selector d.
                 fold (\<lambda>el d.
                         if el \<notin> set contentElements
                            \<and> \<not> list_ex (\<lambda>content. contains d content el) contentElements
                         then remove el d else d)
                      (querySelectorAll d selector) d)
              selectorsToRemove d)"

subsection \<open>Metadata\<close>

text \<open>\<open>/\d{1,2}\s+\w+\s+\d{4}/\<close>\<close>

definition re_revision_date :: "re list" where
  "re_revision_date =
     [Rep (Cls is_digit) 1 (Some 2) True, plus (Cls is_ws), plus (Cls is_word), plus (Cls is_ws),
      Rep (Cls is_digit) 4 (Some 4) True]"

definition timeSelectors :: "selector list" where
  "timeSelectors =
     [type_attr_sel ''meta'' ''property'' ''article:published_time'',
      type_attr_sel ''meta'' ''property'' ''og:published_time'',
      type_attr_sel ''meta'' ''name'' ''published_time'',
      type_attr_sel ''meta'' ''name'' ''date'',
      type_attr_sel ''meta'' ''name'' ''article:published_time'',
      type_attr_sel ''meta'' ''itemprop'' ''datePublished'',
      type_has_attr_sel ''time'' ''datetime'',
      type_has_attr_sel ''time'' ''pubdate'',
      attr_sel ''itemprop'' ''datePublished'',
      class_sel ''published-date'', class_sel ''post-date'', class_sel ''article-date'']"

text \<open>\<open>a || b\<close> on values that are a string, \<open>null\<close> or \<open>undefined\<close>.\<close>

definition truthy :: "jsstring option \<Rightarrow> bool" where
  "truthy v = (case v of None \<Rightarrow> False | Some s \<Rightarrow> s \<noteq> [])"

definition or_else :: "jsstring option \<Rightarrow> jsstring option \<Rightarrow> jsstring option" where
  "or_else a b = (if truthy a then a else b)"

definition textContent_of :: "document \<Rightarrow> handle \<Rightarrow> jsstring option" where
  "textContent_of d el = map_option textContent (node_of d el)"

definition getAttribute_of :: "document \<Rightarrow> handle \<Rightarrow> jsstring \<Rightarrow> jsstring option" where
  "getAttribute_of d el a = Option.bind (node_of d el) (\<lambda>n. getAttribute n a)"

fun published_from :: "collaborators \<Rightarrow> document \<Rightarrow> selector list \<Rightarrow> jsstring option" where
  "published_from E d [] = None"
| "published_from E d (selector # selectors) =
     (case querySelector d selector of
        None \<Rightarrow> published_from E d selectors
      | Some element \<Rightarrow>
          (let time = or_else (getAttribute_of d element (str ''content''))
                        (or_else (getAttribute_of d element (str ''datetime''))
                           (or_else (getAttribute_of d element (str ''pubdate''))
                              (textContent_of d element)))
           in if truthy time
              then (case date_toISOString E (the time) of
                      Some stamp \<Rightarrow> Some stamp
                    | None \<Rightarrow> published_from E d selectors)
              else published_from E d selectors))"

definition extractPublishedTime :: "collaborators \<Rightarrow> document \<Rightarrow> jsstring option" where
  "extractPublishedTime E d =
     (let revisionTimestamp =
            (if is_wikipedia d
             then Option.bind (querySelector d (id_sel ''footer-info-lastmod''))
                    (\<lambda>el. Option.bind (textContent_of d el) (match_first re_revision_date None))
             else None)
      in case (if truthy revisionTimestamp then date_toISOString E (the revisionTimestamp) else None) of
           Some stamp \<Rightarrow> Some stamp
         | None \<Rightarrow> published_from E d timeSelectors)"

subsection \<open>The public operations\<close>

text \<open>
  The loop that defines the property \<open>rows\<close> on each table of the main content, its value
  the \<open>tr\<close> descendants of the table.
\<close>

definition define_rows :: "handle \<Rightarrow> document \<Rightarrow> document" where
  "define_rows t d = d\<lparr>own_rows := own_rows d @ [(t, querySelectorAll_in d t (type_sel ''tr''))]\<rparr>"

definition attach_rows :: "handle \<Rightarrow> document \<Rightarrow> document" where
  "attach_rows mainContent d =
     fold define_rows (querySelectorAll_in d mainContent (type_sel ''table'')) d"

text \<open>\<open>mainContent.innerHTML\<close>: the serialisation of the children as they stand.\<close>

definition innerHTML :: "collaborators \<Rightarrow> document \<Rightarrow> handle \<Rightarrow> jsstring" where
  "innerHTML E d el = serialize E (live_children d el)"

definition document_title :: "document \<Rightarrow> jsstring" where
  "document_title d =
     (let t = Option.bind (querySelector d (type_sel ''title'')) (textContent_of d)
      in if truthy t then the t else str ''Untitled'')"

definition format_header :: "jsstring \<Rightarrow> jsstring option \<Rightarrow> jsstring option \<Rightarrow> jsstring" where
  "format_header title url publishedTime =
     join (str ''\<newline>'')
       (filter (\<lambda>s. s \<noteq> [])
          [str ''Title: '' @ title,
           if truthy url then str ''\<newline>URL Source: '' @ the url else [],
           if truthy publishedTime then str ''\<newline>Published Time: '' @ the publishedTime else [],
           str ''\<newline>Markdown Content:''])"

text \<open>
  \<open>htmlToMarkdown\<close>; reading \<open>querySelectorAll\<close> of a \<open>null\<close> main content throws a
  \<open>TypeError\<close>.
\<close>

definition null_main_content :: js_thrown where
  "null_main_content =
     ErrorObject (str ''TypeError'') (str ''Cannot read properties of null (reading 'querySelectorAll')'')"

definition htmlToMarkdown ::
  "collaborators \<Rightarrow> WebToMarkdownConverter \<Rightarrow> jsstring \<Rightarrow> jsstring option \<Rightarrow> js_thrown + jsstring" where
  "htmlToMarkdown E this html url =
     (let cleanedHtml = cleanHTML html
      in case jsdom E cleanedHtml url of
           Inl e \<Rightarrow> Inl e
         | Inr page \<Rightarrow>
             (let document = parsed page;
                  title = document_title document;
                  publishedTime = extractPublishedTime E document;
                  document = cleanupDocument document;
                  (mainContent, document) = extractMainContent document
              in case mainContent of
                   None \<Rightarrow> Inl null_main_content
                 | Some mainContent \<Rightarrow>
                     (let document = attach_rows mainContent document
                      in case turndown E (turndownService this) (innerHTML E document mainContent) of
                           Inl e \<Rightarrow> Inl e
                         | Inr markdown \<Rightarrow>
                             Inr (format_header title url publishedTime @ str ''\<newline>'' @ markdown))))"

text \<open>
  \<open>urlToMarkdown\<close>: the rejection of the promise is the left summand. The \<open>catch\<close> clause
  covers the fetch and the conversion.
\<close>

definition catch_fetch :: "js_thrown \<Rightarrow> js_thrown" where
  "catch_fetch error =
     (case error of
        ErrorObject n m \<Rightarrow> ErrorObject (str ''Error'') (str ''Failed to fetch URL: '' @ m)
      | NonError v \<Rightarrow> NonError v)"

definition urlToMarkdown ::
  "collaborators \<Rightarrow> WebToMarkdownConverter \<Rightarrow> jsstring \<Rightarrow> js_thrown + jsstring" where
  "urlToMarkdown E this url =
     (case axios_get E url of
        Inl error \<Rightarrow> Inl (catch_fetch error)
      | Inr data \<Rightarrow>
          (case htmlToMarkdown E this data (Some url) of
             Inl error \<Rightarrow> Inl (catch_fetch error)
           | Inr markdown \<Rightarrow> Inr markdown))"

section \<open>Notions for the statements\<close>

text \<open>
  The rules that \<open>configureTurndownService\<close> registers after the custom rules and
  before them, each list with the most recently registered rule first, and the custom
  rules in the order of their registration.
\<close>

definition registered_after ::
  "collaborators \<Rightarrow> WebToMarkdownOptions option \<Rightarrow> (jsstring \<times> rule) list" where
  "registered_after E options =
     (if truthy_noGfm (Option.bind options noGfm) then [] else rev (plugin_rules E gfm))
     @ [(str ''improved-paragraph'', improved_paragraph)]"

definition registered_before ::
  "collaborators \<Rightarrow> WebToMarkdownOptions option \<Rightarrow> (jsstring \<times> rule) list" where
  "registered_before E options =
     (if Option.bind options imgDataUrlToObjectUrl = Some True
      then [(str ''data-url-to-pseudo-object-url'', data_url_to_pseudo_object_url E)] else [])
     @ [(str ''title-as-h1'', title_as_h1), (str ''truncate-svg'', truncate_svg),
        (str ''remove-irrelevant'', remove_irrelevant)]
     @ commonmark_rules E"

definition custom_entries :: "WebToMarkdownOptions option \<Rightarrow> (jsstring \<times> rule) list" where
  "custom_entries options =
     (case Option.bind options customRules of None \<Rightarrow> [] | Some entries \<Rightarrow> entries)"

text \<open>The removal loop of \<open>cleanupDocument\<close>, for a given protected set and selector list.\<close>

definition sweep :: "handle list \<Rightarrow> selector list \<Rightarrow> document \<Rightarrow> document" where
  "sweep CE sels d =
     fold (\<lambda>selector d.
             fold (\<lambda>el d. if el \<notin> set CE \<and> \<not> list_ex (\<lambda>content. contains d content el) CE
                           then remove el d else d)
                  (querySelectorAll d selector) d) sels d"

text \<open>The numbers from \<open>hi\<close> down to \<open>lo\<close>.\<close>

primrec down_from :: "nat \<Rightarrow> nat \<Rightarrow> nat list" where
  "down_from lo 0 = (if lo = 0 then [0] else [])"
| "down_from lo (Suc h) = (if lo \<le> Suc h then Suc h # down_from lo h else [])"

text \<open>
  Where \<open>^\<close> matches under the \<open>m\<close> flag, the class \<open>[ \t]\<close>, and the texts in which no
  line starts with a space or a tab.
\<close>

definition at_bol :: "jschar option \<Rightarrow> bool" where
  "at_bol prev = (case prev of None \<Rightarrow> True | Some p \<Rightarrow> is_line_terminator p)"

definition is_blank :: "jschar \<Rightarrow> bool" where
  "is_blank c = (c = 0x20 \<or> c = 0x9)"

fun no_indent :: "jschar option \<Rightarrow> jsstring \<Rightarrow> bool" where
  "no_indent prev [] = True"
| "no_indent prev (c # cs) = ((at_bol prev \<longrightarrow> \<not> is_blank c) \<and> no_indent (Some c) cs)"

text \<open>The first pass of \<open>tidyMarkdown\<close>, which rewrites the links.\<close>

definition normalize_links :: "jsstring \<Rightarrow> jsstring" where
  "normalize_links markdown =
     replace_all re_link
       (\<lambda>m. let text = trim (replace_all re_spaces (\<lambda>_. str '' '') (m ! 2));
                 url = trim (replace_all re_spaces (\<lambda>_. []) (m ! 8))
             in str ''['' @ text @ str '']('' @ url @ str '')'') markdown"

section \<open>Example inputs\<close>

text \<open>
  The tree that the parser builds for
  \<^verbatim>\<open><title>My Page</title><article><h1>Hi</h1><p>Hello world</p></article>\<close>
  (it supplies the \<open>html\<close>, \<open>head\<close> and \<open>body\<close> elements), at the location
  \<open>about:blank\<close>, whose host name is empty.
\<close>

definition my_page :: node where
  "my_page =
     Element (str ''html'') []
       [Element (str ''head'') [] [Element (str ''title'') [] [Text (str ''My Page'')]],
        Element (str ''body'') []
          [Element (str ''article'') []
             [Element (str ''h1'') [] [Text (str ''Hi'')],
              Element (str ''p'') [] [Text (str ''Hello world'')]]]]"

text \<open>
  Stand-ins for the collaborators, for evaluating the converter on concrete inputs: a
  parser that answers with a given tree, as the document of an input without a doctype
  and without a URL (quirks mode, empty host name), a serialisation and a rendering that keep the
  text only, an engine without built-in rules or plugins, and an HTTP client that
  answers with a given result.
\<close>

definition no_doctype :: "node \<Rightarrow> page" where
  "no_doctype root = \<lparr>page_tree = root, page_hostname = [], page_quirks = True\<rparr>"

definition collaborators_for :: "node \<Rightarrow> js_thrown + jsstring \<Rightarrow> collaborators" where
  "collaborators_for root response =
     \<lparr>jsdom = (\<lambda>html url. Inr (no_doctype root)),
      serialize = (\<lambda>ns. concat (map textContent ns)),
      turndown = (\<lambda>svc html. Inr html),
      commonmark_rules = [],
      plugin_rules = (\<lambda>p. []),
      plugin_keep = (\<lambda>p. []),
      reflect_url = (\<lambda>u. u),
      md5_hex = (\<lambda>s. s),
      date_toISOString = (\<lambda>t. None),
      axios_get = (\<lambda>url. response)\<rparr>"

text \<open>
  Boilerplate around a content container,
  \<^verbatim>\<open><nav>Menu</nav><article>Real content</article><footer>Imprint</footer>\<close>, and the
  same boilerplate around content that no content selector matches.
\<close>

definition chrome_page :: node where
  "chrome_page =
     Element (str ''html'') []
       [Element (str ''head'') [] [],
        Element (str ''body'') []
          [Element (str ''nav'') [] [Text (str ''Menu'')],
           Element (str ''article'') [] [Text (str ''Real content'')],
           Element (str ''footer'') [] [Text (str ''Imprint'')]]]"

definition bare_page :: node where
  "bare_page =
     Element (str ''html'') []
       [Element (str ''head'') [] [],
        Element (str ''body'') []
          [Element (str ''nav'') [] [Text (str ''Menu'')],
           Element (str ''div'') [] [Text (str ''Real content'')],
           Element (str ''footer'') [] [Text (str ''Imprint'')]]]"

text \<open>
  The same boilerplate inside the \<open>main\<close> element, around a \<open>div\<close> of class
  \<open>post-content\<close>:
  \<^verbatim>\<open><main><nav>Menu</nav><div class="post-content">Real content</div><footer>Imprint</footer></main>\<close>.
\<close>

definition nested_chrome_page :: node where
  "nested_chrome_page =
     Element (str ''html'') []
       [Element (str ''head'') [] [],
        Element (str ''body'') []
          [Element (str ''main'') []
             [Element (str ''nav'') [] [Text (str ''Menu'')],
              Element (str ''div'') [(str ''class'', str ''post-content'')]
                [Text (str ''Real content'')],
              Element (str ''footer'') [] [Text (str ''Imprint'')]]]]"

text \<open>
  An element that a boilerplate selector and a content selector both match, in a
  document without a doctype: \<^verbatim>\<open><div class="Content Sidebar">Real content</div>\<close>.
\<close>

definition both_page :: node where
  "both_page =
     Element (str ''html'') []
       [Element (str ''head'') [] [],
        Element (str ''body'') []
          [Element (str ''div'') [(str ''class'', str ''Content Sidebar'')]
             [Text (str ''Real content'')]]]"

text \<open>A title whose text holds a line of its own that reads like a header field.\<close>

definition injected_title_page :: node where
  "injected_title_page =
     Element (str ''html'') []
       [Element (str ''head'') []
          [Element (str ''title'') []
             [Text (str ''Release notes\<newline>URL Source: http://evil.example/'')]],
        Element (str ''body'') [] [Element (str ''article'') [] [Text (str ''Hello'')]]]"

text \<open>Custom rules for paragraphs and for the title, with GFM switched off.\<close>

definition my_paragraph :: rule where
  "my_paragraph = \<lparr>rfilter = TagFilter (str ''p''), replacement = (\<lambda>content node. str ''custom'')\<rparr>"

definition my_title :: rule where
  "my_title = \<lparr>rfilter = TagFilter (str ''title''), replacement = (\<lambda>content node. str ''custom'')\<rparr>"

text \<open>The data-URL rule switched on, with GFM switched off.\<close>

definition data_url_options :: WebToMarkdownOptions where
  "data_url_options =
     \<lparr>retainImages = None, noGfm = Some (Bool True), imgDataUrlToObjectUrl = Some True,
      customRules = None, customKeep = None\<rparr>"

definition my_options :: WebToMarkdownOptions where
  "my_options =
     \<lparr>retainImages = None, noGfm = Some (Bool True), imgDataUrlToObjectUrl = None,
      customRules = Some [(str ''my-paragraph'', my_paragraph), (str ''my-title'', my_title)],
      customKeep = None\<rparr>"

section \<open>Evaluation on concrete inputs\<close>

lemmas sel_defs =
  type_sel_def id_sel_def class_sel_def attr_sel_def type_attr_sel_def type_has_attr_sel_def

lemmas dom_defs =
  querySelectorAll_def querySelector_def querySelectorAll_in_def matches_def attached_def
  contains_def classList_def parsed_def no_doctype_def node_of_def remove_def body_def
  textContent_of_def getAttribute_of_def eq_ascii_ci_def ascii_lower_def is_ascii_space_def

lemma collaborators_for_sel:
  "jsdom (collaborators_for page r) = (\<lambda>html url. Inr (no_doctype page))"
  "serialize (collaborators_for page r) = (\<lambda>ns. concat (map textContent ns))"
  "turndown (collaborators_for page r) = (\<lambda>svc html. Inr html)"
  "commonmark_rules (collaborators_for page r) = []"
  "plugin_rules (collaborators_for page r) = (\<lambda>p. [])"
  "reflect_url (collaborators_for page r) = (\<lambda>u. u)"
  "md5_hex (collaborators_for page r) = (\<lambda>s. s)"
  "date_toISOString (collaborators_for page r) = (\<lambda>t. None)"
  "axios_get (collaborators_for page r) = (\<lambda>url. r)"
  by (simp_all add: collaborators_for_def)

lemma published_from_no_date:
  "date_toISOString E = (\<lambda>t. None) \<Longrightarrow> published_from E d sels = None"
  by (induction sels) (auto simp: Let_def split: option.splits)

lemma extractPublishedTime_no_date:
  "date_toISOString E = (\<lambda>t. None) \<Longrightarrow> extractPublishedTime E d = None"
  by (simp add: extractPublishedTime_def published_from_no_date Let_def)

section \<open>Configuration of the rule table\<close>

lemma configureTurndownService_retainImages:
  "configureTurndownService E (Some (options\<lparr>retainImages := mode\<rparr>)) svc
     = configureTurndownService E (Some options) svc"
  by (simp add: configureTurndownService_def Let_def cong: if_cong)

text \<open>
  C1. The image-retention mode is declared among the options and documented as the
  control of image handling, but the configuration of the rule table never reads it:
  a converter built with \<open>retainImages: 'none'\<close> converts every input exactly as one
  built with \<open>retainImages: 'all'\<close>, so an ordinary image that the second keeps as a full
  image reference, the first keeps too.
\<close>

theorem retainImages_never_read:
  "htmlToMarkdown E (new_WebToMarkdownConverter E (Some (options\<lparr>retainImages := Some none\<rparr>))) html url
     = htmlToMarkdown E (new_WebToMarkdownConverter E (Some (options\<lparr>retainImages := Some all\<rparr>))) html url"
  by (simp add: new_WebToMarkdownConverter_def configureTurndownService_retainImages)

text \<open>
  C2. With \<open>noGfm: 'table'\<close> the outer test \<open>!options?.noGfm\<close> is false, since a
  non-empty string is truthy, and the branch that registers the strikethrough and
  task-list plugins is never reached: the rule table is the one of \<open>noGfm: true\<close>, with
  no plugin registered.
\<close>

theorem noGfm_table_registers_no_plugin:
  "configureTurndownService E (Some (options\<lparr>noGfm := Some table\<rparr>)) svc
     = configureTurndownService E (Some (options\<lparr>noGfm := Some (Bool True)\<rparr>)) svc"
  by (simp add: configureTurndownService_def Let_def cong: if_cong)

lemma rules_keep: "rules (keep f svc) = rules svc"
  by (simp add: keep_def)

lemma rules_fold_keep: "rules (fold keep fs svc) = rules svc"
  by (induction fs arbitrary: svc) (simp_all add: rules_keep)

lemma rules_fold_addRule: "rules (fold (\<lambda>(k, r). addRule k r) es svc) = rev es @ rules svc"
  by (induction es arbitrary: svc) (auto simp: addRule_def)

lemma rules_use: "rules (use E p svc) = rev (plugin_rules E p) @ rules svc"
  by (simp add: use_def rules_fold_addRule rules_fold_keep)

lemma rules_configureTurndownService:
  "rules (configureTurndownService E options svc)
     = registered_after E options @ rev (custom_entries options)
         @ (if Option.bind options imgDataUrlToObjectUrl = Some True
            then [(str ''data-url-to-pseudo-object-url'', data_url_to_pseudo_object_url E)] else [])
         @ [(str ''title-as-h1'', title_as_h1), (str ''truncate-svg'', truncate_svg),
            (str ''remove-irrelevant'', remove_irrelevant)]
         @ rules svc"
  unfolding configureTurndownService_def Let_def registered_after_def custom_entries_def
  by (cases "Option.bind options customRules")
     (auto simp: rules_use rules_fold_addRule addRule_def rules_keep)

lemma findRule_append:
  "findRule (xs @ ys) n =
     (case findRule xs n of
        Inl e \<Rightarrow> Inl e
      | Inr (Some r) \<Rightarrow> Inr (Some r)
      | Inr None \<Rightarrow> findRule ys n)"
  by (induction xs) (auto split: sum.splits bool.splits)

text \<open>
  C4, as amended. The rule that the table gives for a node is the first match among the
  rules registered after the custom rules (those of the GFM plugins, when GFM is on,
  and the paragraph rule), then among the custom rules, the one registered last coming
  first, then among the rules registered before them (the data-URL rule, the title, SVG
  and irrelevant-tag rules) and the built-in rules of the engine. So a custom rule takes
  precedence over the latter, and yields to the paragraph rule and the GFM rules. A
  filter that throws before any rule has matched ends the search in the same order.
\<close>

theorem custom_rules_precedence:
  "findRule (rules (turndownService (new_WebToMarkdownConverter E options))) n =
     (case findRule (registered_after E options) n of
        Inl e \<Rightarrow> Inl e
      | Inr (Some r) \<Rightarrow> Inr (Some r)
      | Inr None \<Rightarrow>
          (case findRule (rev (custom_entries options)) n of
             Inl e \<Rightarrow> Inl e
           | Inr (Some r) \<Rightarrow> Inr (Some r)
           | Inr None \<Rightarrow> findRule (registered_before E options) n))"
  by (simp add: new_WebToMarkdownConverter_def rules_configureTurndownService findRule_append
        registered_before_def new_TurndownService_def split: sum.splits option.splits)

theorem custom_rules_precedence_witness:
  "filter_matches (rfilter title_as_h1) (Element (str ''title'') [] [Text (str ''My Page'')])
     = Inr True
   \<and> map_sum id (map_option fst)
       (findRule (rules (turndownService
                   (new_WebToMarkdownConverter (collaborators_for my_page (Inr [])) (Some my_options))))
          (Element (str ''title'') [] [Text (str ''My Page'')]))
     = Inr (Some (str ''my-title''))"
  unfolding custom_rules_precedence
  by (simp add: registered_after_def registered_before_def custom_entries_def
        my_options_def my_title_def my_paragraph_def improved_paragraph_def title_as_h1_def
        str_def)

text \<open>
  The claim as first stated fails for the paragraph rule: a paragraph that a custom rule
  matches is rendered by \<open>improved-paragraph\<close>, which is registered after the custom
  rules.
\<close>

theorem custom_rules_precedence_counterexample:
  "filter_matches (rfilter my_paragraph) (Element (str ''p'') [] [Text (str ''Hello world'')])
     = Inr True
   \<and> map_sum id
       (map_option (\<lambda>(k, r). (k, replacement r (str ''Hello world'')
                                   (Element (str ''p'') [] [Text (str ''Hello world'')]))))
       (findRule (rules (turndownService
                   (new_WebToMarkdownConverter (collaborators_for my_page (Inr [])) (Some my_options))))
          (Element (str ''p'') [] [Text (str ''Hello world'')]))
     = Inr (Some (str ''improved-paragraph'', str ''Hello world\<newline>\<newline>''))"
  by code_simp

section \<open>Fetching\<close>

text \<open>
  C9, as amended. When the fetch fails, \<open>urlToMarkdown\<close> fails: nothing is swallowed and
  no output is returned. When the value that the fetch throws is an instance of \<open>Error\<close>,
  what \<open>urlToMarkdown\<close> throws is a new \<open>Error\<close> whose message is
  \<open>Failed to fetch URL: \<close> followed by the message of the original.
\<close>

theorem urlToMarkdown_wraps_errors:
  "axios_get E url = Inl e \<Longrightarrow>
     isl (urlToMarkdown E this url) \<and>
     (\<forall>n m. e = ErrorObject n m \<longrightarrow>
        urlToMarkdown E this url
          = Inl (ErrorObject (str ''Error'') (str ''Failed to fetch URL: '' @ m)))"
  by (auto simp: urlToMarkdown_def catch_fetch_def split: js_thrown.splits)

theorem urlToMarkdown_wraps_errors_witness:
  "axios_get (collaborators_for my_page (Inl (ErrorObject (str ''AxiosError'') (str ''timeout'')))) (str ''http://a.example/'')
     = Inl (ErrorObject (str ''AxiosError'') (str ''timeout''))
   \<and> urlToMarkdown (collaborators_for my_page (Inl (ErrorObject (str ''AxiosError'') (str ''timeout''))))
         (new_WebToMarkdownConverter (collaborators_for my_page (Inl (ErrorObject (str ''AxiosError'') (str ''timeout'')))) None)
         (str ''http://a.example/'')
       = Inl (ErrorObject (str ''Error'') (str ''Failed to fetch URL: timeout''))"
  using urlToMarkdown_wraps_errors
          [of "collaborators_for my_page (Inl (ErrorObject (str ''AxiosError'') (str ''timeout'')))"
              "str ''http://a.example/''" "ErrorObject (str ''AxiosError'') (str ''timeout'')"]
  by (simp add: collaborators_for_def str_def)

text \<open>
  The claim as first stated, that every failure of the fetch is wrapped, fails for a
  thrown value that is not an \<open>Error\<close>: it leaves \<open>urlToMarkdown\<close> as it is, without the
  context \<open>Failed to fetch URL:\<close>.
\<close>

theorem urlToMarkdown_wraps_counterexample:
  "urlToMarkdown (collaborators_for my_page (Inl (NonError (str ''timeout''))))
     (new_WebToMarkdownConverter (collaborators_for my_page (Inl (NonError (str ''timeout'')))) None)
     (str ''http://a.example/'')
   = Inl (NonError (str ''timeout''))"
  by (simp add: urlToMarkdown_def catch_fetch_def collaborators_for_def)

text \<open>
  C10. \<open>urlToMarkdown\<close> wraps only the instances of \<open>Error\<close>: what the fetch throws is
  thrown again unchanged exactly when it is not an \<open>Error\<close>.
\<close>

theorem urlToMarkdown_rethrows_non_errors:
  "axios_get E url = Inl e \<Longrightarrow>
     (urlToMarkdown E this url = Inl e) = (\<exists>v. e = NonError v)"
  by (auto simp: urlToMarkdown_def catch_fetch_def str_def split: js_thrown.splits)

theorem urlToMarkdown_rethrows_non_errors_witness:
  "axios_get (collaborators_for my_page (Inl (NonError (str ''{code: 503}'')))) (str ''http://b.example/'')
     = Inl (NonError (str ''{code: 503}''))
   \<and> urlToMarkdown (collaborators_for my_page (Inl (NonError (str ''{code: 503}''))))
         (new_WebToMarkdownConverter (collaborators_for my_page (Inl (NonError (str ''{code: 503}'')))) None)
         (str ''http://b.example/'')
       = Inl (NonError (str ''{code: 503}''))"
  using urlToMarkdown_rethrows_non_errors
          [of "collaborators_for my_page (Inl (NonError (str ''{code: 503}'')))"
              "str ''http://b.example/''" "NonError (str ''{code: 503}'')"]
  by (simp add: collaborators_for_def)

section \<open>The header of the output\<close>

lemma join_header:
  "join (str ''\<newline>'') (filter (\<lambda>s. s \<noteq> []) [a # as, u, p, m # ms])
     = (a # as) @ (if u = [] then [] else str ''\<newline>'' @ u) @ (if p = [] then [] else str ''\<newline>'' @ p)
       @ str ''\<newline>'' @ (m # ms)"
  by (cases u; cases p) simp_all

lemma format_header_eq:
  "format_header title url publishedTime =
     str ''Title: '' @ title
     @ (if truthy url then str ''\<newline>\<newline>URL Source: '' @ the url else [])
     @ (if truthy publishedTime then str ''\<newline>\<newline>Published Time: '' @ the publishedTime else [])
     @ str ''\<newline>\<newline>Markdown Content:''"
  by (simp add: format_header_def str_def)

text \<open>
  C7, as amended. \<open>htmlToMarkdown\<close> returns a text exactly when the parser, the
  selection of the main content and the rendering succeed, and the text is then the
  header followed by the rendered body: \<open>Title: \<close> and the text of the first \<open>title\<close>
  element, or \<open>Untitled\<close> when there is none or its text is empty; then, only for a
  non-empty \<open>url\<close>, a blank line and \<open>URL Source: \<close> with the URL; then, only when a
  published time was found, a blank line and \<open>Published Time: \<close> with it; then a blank
  line, the marker \<open>Markdown Content:\<close>, a line break and the body. Without a \<open>url\<close> the
  header has no \<open>URL Source\<close> field.
\<close>

theorem htmlToMarkdown_header:
  "(htmlToMarkdown E this html url = Inr out) =
     (\<exists>page mainContent markdown.
        jsdom E (cleanHTML html) url = Inr page
        \<and> fst (extractMainContent (cleanupDocument (parsed page))) = Some mainContent
        \<and> turndown E (turndownService this)
              (innerHTML E (attach_rows mainContent (snd (extractMainContent (cleanupDocument (parsed page)))))
                 mainContent) = Inr markdown
        \<and> out = str ''Title: ''
                 @ (case Option.bind (querySelector (parsed page) (type_sel ''title'')) (textContent_of (parsed page)) of
                      None \<Rightarrow> str ''Untitled''
                    | Some t \<Rightarrow> if t = [] then str ''Untitled'' else t)
                 @ (case url of None \<Rightarrow> [] | Some u \<Rightarrow> if u = [] then [] else str ''\<newline>\<newline>URL Source: '' @ u)
                 @ (case extractPublishedTime E (parsed page) of
                      None \<Rightarrow> []
                    | Some t \<Rightarrow> if t = [] then [] else str ''\<newline>\<newline>Published Time: '' @ t)
                 @ str ''\<newline>\<newline>Markdown Content:\<newline>'' @ markdown)"
  unfolding htmlToMarkdown_def Let_def format_header_eq document_title_def
  by (auto simp: truthy_def str_def split: sum.splits option.splits prod.splits)

lemma my_page_contentElements:
  "contentElements (parsed (no_doctype my_page)) = [[Suc 0, 0], [Suc 0], []]"
  by (simp add: contentElements_def contentSelectors_def sel_defs dom_defs my_page_def
        str_def set_add_def parentElement_def)

lemma my_page_cleanup: "cleanupDocument (parsed (no_doctype my_page)) = parsed (no_doctype my_page)"
  unfolding cleanupDocument_def my_page_contentElements Let_def
  by (simp add: selectorsToRemove_def sel_defs dom_defs my_page_def str_def)

lemma my_page_main:
  "extractMainContent (parsed (no_doctype my_page)) = (Some [Suc 0, 0], parsed (no_doctype my_page))"
  by (simp add: extractMainContent_def is_wikipedia_def includes_js_def contentSelectors_def
        sel_defs dom_defs my_page_def str_def)

lemma my_page_rows: "attach_rows [Suc 0, 0] (parsed (no_doctype my_page)) = parsed (no_doctype my_page)"
  by (simp add: attach_rows_def sel_defs dom_defs my_page_def str_def)

lemma my_page_inner:
  "live_children (parsed (no_doctype my_page)) [Suc 0, 0]
     = [Element (str ''h1'') [] [Text (str ''Hi'')], Element (str ''p'') [] [Text (str ''Hello world'')]]"
  by (simp add: live_children_def below_def dom_defs my_page_def)

lemma my_page_title:
  "Option.bind (querySelector (parsed (no_doctype my_page)) (type_sel ''title''))
     (textContent_of (parsed (no_doctype my_page))) = Some (str ''My Page'')"
  by (simp add: sel_defs dom_defs my_page_def str_def)

theorem htmlToMarkdown_header_witness:
  "htmlToMarkdown (collaborators_for my_page (Inr []))
     (new_WebToMarkdownConverter (collaborators_for my_page (Inr [])) None)
     (str ''<title>My Page</title><article><h1>Hi</h1><p>Hello world</p></article>'')
     (Some (str ''http://a.example/''))
   = Inr (str ''Title: My Page\<newline>\<newline>URL Source: http://a.example/\<newline>\<newline>Markdown Content:\<newline>HiHello world'')"
  unfolding htmlToMarkdown_header
  by (simp add: collaborators_for_sel my_page_cleanup my_page_main my_page_rows innerHTML_def
        my_page_inner my_page_title extractPublishedTime_no_date)
     (simp add: str_def)

text \<open>
  The claim as first stated, that without a \<open>url\<close> the output has no \<open>URL Source:\<close> line,
  fails: the title text is copied into the header as it is, line breaks included, so
  for \<^verbatim>\<open><title>Release notes(LF)URL Source: http://evil.example/</title>\<close> the second
  line of the output is a \<open>URL Source:\<close> line although no \<open>url\<close> was given. (The stand-in
  parser answers with the tree of that input.)
\<close>

theorem htmlToMarkdown_header_counterexample:
  "htmlToMarkdown (collaborators_for injected_title_page (Inr []))
     (new_WebToMarkdownConverter (collaborators_for injected_title_page (Inr [])) None)
     (str ''<title>Release notes\<newline>URL Source: http://evil.example/</title><article>Hello</article>'')
     None
   = Inr (str ''Title: Release notes\<newline>URL Source: http://evil.example/\<newline>\<newline>Markdown Content:\<newline>Hello'')"
proof -
  let ?d = "parsed (no_doctype injected_title_page)"
  have title: "document_title ?d = str ''Release notes\<newline>URL Source: http://evil.example/''"
    by (simp add: document_title_def sel_defs dom_defs injected_title_page_def str_def truthy_def)
  have ce: "contentElements ?d = [[Suc 0, 0], [Suc 0], []]"
    by (simp add: contentElements_def contentSelectors_def sel_defs dom_defs injected_title_page_def
          str_def set_add_def parentElement_def)
  have clean: "cleanupDocument ?d = ?d"
    unfolding cleanupDocument_def ce Let_def
    by (simp add: selectorsToRemove_def sel_defs dom_defs injected_title_page_def str_def)
  have main: "extractMainContent ?d = (Some [Suc 0, 0], ?d)"
    by (simp add: extractMainContent_def is_wikipedia_def includes_js_def contentSelectors_def
          sel_defs dom_defs injected_title_page_def str_def)
  have rows: "attach_rows [Suc 0, 0] ?d = ?d"
    by (simp add: attach_rows_def sel_defs dom_defs injected_title_page_def str_def)
  have inner: "live_children ?d [Suc 0, 0] = [Text (str ''Hello'')]"
    by (simp add: live_children_def below_def dom_defs injected_title_page_def)
  show ?thesis
    unfolding htmlToMarkdown_def Let_def collaborators_for_sel
    by (simp add: title clean main rows inner innerHTML_def collaborators_for_sel
          extractPublishedTime_no_date format_header_def truthy_def str_def)
qed

section \<open>Table rows\<close>

lemma attach_rows_tree:
  "documentElement (attach_rows mc d) = documentElement d" "removed (attach_rows mc d) = removed d"
proof -
  have "documentElement (fold define_rows ts d) = documentElement d
        \<and> removed (fold define_rows ts d) = removed d" for ts
    by (induction ts arbitrary: d) (simp_all add: define_rows_def)
  then show "documentElement (attach_rows mc d) = documentElement d" "removed (attach_rows mc d) = removed d"
    by (simp_all add: attach_rows_def)
qed

text \<open>
  C5. The loop before the rendering defines \<open>rows\<close> on the table elements of the
  parsed document, but what the converter hands to the renderer is the serialisation
  \<open>mainContent.innerHTML\<close>, a string, which the renderer parses again: the serialisation
  is the same with and without the loop, so the property never reaches the table rules.
\<close>

theorem rows_never_reach_renderer:
  "innerHTML E (attach_rows mainContent d) el = innerHTML E d el"
  unfolding innerHTML_def live_children_def node_of_def attach_rows_tree ..

section \<open>The data-URL rule\<close>

lemma data_url_filter:
  "filter_matches (rfilter (data_url_to_pseudo_object_url E)) n
     = Inl (ErrorObject (str ''ReferenceError'') (str ''HTMLElement is not defined''))"
  by (simp add: data_url_to_pseudo_object_url_def HTMLElement_def)

text \<open>
  C6. With \<open>imgDataUrlToObjectUrl\<close> enabled, the rule that replaces a data-URL image by
  \<open>![alt](blob:hash)\<close> is in the table, but its filter starts with
  \<open>node instanceof HTMLElement\<close>, and \<open>HTMLElement\<close> is not bound where the converter runs:
  the filter throws a \<open>ReferenceError\<close> for every node it is asked about. So the search of
  a rule for a node gives the first match among the rules registered after the data-URL
  rule (the GFM rules, the paragraph rule and the custom rules) and fails with that error
  for every other node, an image with a data URL among them: no image is ever mapped to a
  placeholder, and the rules registered before the data-URL rule and the built-in rules of
  the engine are never reached.
\<close>

theorem data_url_filter_throws:
  assumes "Option.bind options imgDataUrlToObjectUrl = Some True"
  shows "findRule (rules (turndownService (new_WebToMarkdownConverter E options))) n =
     (case findRule (registered_after E options) n of
        Inl e \<Rightarrow> Inl e
      | Inr (Some r) \<Rightarrow> Inr (Some r)
      | Inr None \<Rightarrow>
          (case findRule (rev (custom_entries options)) n of
             Inl e \<Rightarrow> Inl e
           | Inr (Some r) \<Rightarrow> Inr (Some r)
           | Inr None \<Rightarrow>
               Inl (ErrorObject (str ''ReferenceError'') (str ''HTMLElement is not defined''))))"
  using assms
  by (simp add: new_WebToMarkdownConverter_def rules_configureTurndownService findRule_append
        data_url_filter split: sum.splits option.splits)

theorem data_url_filter_throws_witness:
  "Option.bind (Some data_url_options) imgDataUrlToObjectUrl = Some True
   \<and> findRule (rules (turndownService
                (new_WebToMarkdownConverter (collaborators_for my_page (Inr []))
                   (Some data_url_options))))
        (Element (str ''img'')
           [(str ''src'', str ''data:image/png;base64,AAAA''), (str ''alt'', str ''x'')] [])
     = Inl (ErrorObject (str ''ReferenceError'') (str ''HTMLElement is not defined''))"
  using data_url_filter_throws
          [where options = "Some data_url_options"
             and E = "collaborators_for my_page (Inr [])"
             and n = "Element (str ''img'')
                        [(str ''src'', str ''data:image/png;base64,AAAA''), (str ''alt'', str ''x'')] []"]
  by (simp add: data_url_options_def registered_after_def custom_entries_def
        improved_paragraph_def str_def)

section \<open>Removal of boilerplate\<close>

lemma prefix_butlast_iff:
  "e \<noteq> [] \<Longrightarrow> prefix a e \<longleftrightarrow> a = e \<or> prefix a (butlast e)"
  using prefix_snoc [of a "butlast e" "last e"] by simp

lemma set_set_add: "set (set_add e S) = insert e (set S)"
  by (auto simp: set_add_def)

lemma set_add_parents:
  "set (add_parents p S) = set S \<union> (case p of None \<Rightarrow> {} | Some e \<Rightarrow> {a. prefix a e})"
proof (induction p S rule: add_parents.induct)
  case (1 S)
  show ?case by simp
next
  case (2 parent S)
  show ?case
  proof (cases "parent = []")
    case True
    then show ?thesis using 2 by (auto simp: parentElement_def set_set_add)
  next
    case False
    then show ?thesis
      using 2 by (auto simp: parentElement_def set_set_add prefix_butlast_iff [OF False])
  qed
qed

lemma set_add_with_parents:
  "set (add_parents (parentElement el) (set_add el S)) = set S \<union> {a. prefix a el}"
  using set_add_parents [of "Some el" S] by simp

lemma set_fold_add_with_parents:
  "set (fold (\<lambda>el S. add_parents (parentElement el) (set_add el S)) els S)
     = set S \<union> {a. \<exists>el \<in> set els. prefix a el}"
  by (induction els arbitrary: S) (auto simp: set_add_with_parents)

lemma set_fold_selectors:
  "set (fold (\<lambda>selector S. fold (\<lambda>el S. add_parents (parentElement el) (set_add el S))
                               (querySelectorAll d selector) S) sels S)
     = set S \<union> {a. \<exists>selector \<in> set sels. \<exists>el \<in> set (querySelectorAll d selector). prefix a el}"
  by (induction sels arbitrary: S) (auto simp: set_fold_add_with_parents)

lemma set_contentElements:
  "set (contentElements d)
     = {a. \<exists>selector \<in> set contentSelectors. \<exists>el \<in> set (querySelectorAll d selector). prefix a el}"
  by (simp add: contentElements_def set_fold_selectors)

lemma root_in_contentElements:
  assumes "contentElements d \<noteq> []"
  shows "[] \<in> set (contentElements d)"
proof -
  from assms obtain a where "a \<in> set (contentElements d)"
    by (cases "contentElements d") auto
  then show ?thesis by (auto simp: set_contentElements)
qed

lemma set_querySelectorAll:
  "set (querySelectorAll d sel)
     = {p. \<exists>n. (p, n) \<in> set (elems (documentElement d)) \<and> attached d p
                \<and> matches (quirks d) sel n}"
  by (auto simp: querySelectorAll_def image_iff)

lemma attached_mono:
  "set (removed d) \<subseteq> set (removed d') \<Longrightarrow> \<not> attached d e \<Longrightarrow> \<not> attached d' e"
  by (auto simp: attached_def list_ex_iff)

lemma fold_remove:
  "fold remove es d = d\<lparr>removed := removed d @ es\<rparr>"
  by (induction es arbitrary: d) (simp_all add: remove_def)

lemma cleanupDocument_sweep:
  "cleanupDocument d = sweep (contentElements d) selectorsToRemove d"
  by (simp add: cleanupDocument_def sweep_def Let_def)

lemma sweep_nothing_protected:
  "documentElement (sweep [] sels d) = documentElement d
   \<and> set (removed d) \<subseteq> set (removed (sweep [] sels d))
   \<and> quirks (sweep [] sels d) = quirks d
   \<and> (\<forall>sel \<in> set sels. \<forall>e n. (e, n) \<in> set (elems (documentElement d))
            \<and> matches (quirks d) sel n
          \<longrightarrow> \<not> attached (sweep [] sels d) e)"
proof (induction sels arbitrary: d)
  case Nil
  show ?case by (simp add: sweep_def)
next
  case (Cons sel sels)
  let ?d1 = "d\<lparr>removed := removed d @ querySelectorAll d sel\<rparr>"
  have step: "sweep [] (sel # sels) d = sweep [] sels ?d1"
    by (simp add: sweep_def fold_remove)
  from Cons.IH [of ?d1] have
    ih1: "documentElement (sweep [] sels ?d1) = documentElement d" and
    ih2: "set (removed ?d1) \<subseteq> set (removed (sweep [] sels ?d1))" and
    ih4: "quirks (sweep [] sels ?d1) = quirks d" and
    ih3: "\<forall>s \<in> set sels. \<forall>e n. (e, n) \<in> set (elems (documentElement d))
              \<and> matches (quirks d) s n
            \<longrightarrow> \<not> attached (sweep [] sels ?d1) e"
    by simp_all
  have here: "\<not> attached (sweep [] sels ?d1) e"
    if "(e, n) \<in> set (elems (documentElement d))" and "matches (quirks d) sel n" for e n
  proof -
    have "\<not> attached ?d1 e"
    proof (cases "attached d e")
      case True
      with that have "e \<in> set (querySelectorAll d sel)" by (auto simp: set_querySelectorAll)
      then show ?thesis by (auto simp: attached_def list_ex_iff)
    next
      case False
      then show ?thesis by (auto simp: attached_def list_ex_iff)
    qed
    with ih2 show ?thesis by (rule attached_mono)
  qed
  show ?case
    unfolding step using ih1 ih2 ih3 ih4 here by auto
qed

lemma sweep_root_protected:
  assumes root: "[] \<in> set CE" and fresh: "removed d = []"
  shows "sweep CE sels d = d"
proof -
  have inner: "fold (\<lambda>el d. if el \<notin> set CE \<and> \<not> list_ex (\<lambda>content. contains d content el) CE
                           then remove el d else d) els d = d" for els
    using root fresh by (induction els) (auto simp: list_ex_iff contains_def)
  show ?thesis
    unfolding sweep_def using inner by (induction sels) simp_all
qed

lemma first_match_None:
  "first_match d sels = None \<longleftrightarrow> (\<forall>sel \<in> set sels. querySelectorAll d sel = [])"
  by (induction sels) (auto simp: querySelector_def split: list.splits)

lemma first_match_Some:
  "first_match d sels = Some mc \<Longrightarrow> \<exists>sel \<in> set sels. mc \<in> set (querySelectorAll d sel)"
  by (induction sels) (auto simp: querySelector_def split: list.splits)

lemma node_of_querySelectorAll:
  assumes "mc \<in> set (querySelectorAll d sel)"
  shows "\<exists>n. node_of d mc = Some n"
proof -
  from assms have "mc \<in> fst ` set (elems (documentElement d))"
    by (auto simp: querySelectorAll_def)
  then have "map_of (elems (documentElement d)) mc \<noteq> None"
    by (simp add: map_of_eq_None_iff)
  then show ?thesis by (auto simp: node_of_def)
qed

lemma prune_nothing:
  "prune [] n = n" "prune_list [] i cs = cs"
  by (induction "[] :: handle list" n and "[] :: handle list" i cs
        rule: prune_prune_list.induct)
     (simp_all add: below_def)

lemma live_children_parsed:
  "node_of (parsed page) mc = Some n \<Longrightarrow> live_children (parsed page) mc = childNodes n"
  by (simp add: live_children_def prune_nothing) (simp add: parsed_def prune_nothing)

text \<open>
  C8, as amended. Let \<open>e\<close> be an element of the parsed document. If a boilerplate
  selector matches \<open>e\<close>, then after \<open>cleanupDocument\<close> the element \<open>e\<close> is still in the
  document exactly when it is in the protected set (the matches of the content
  selectors and their ancestors) or is contained in an element of that set. If a
  content selector matches \<open>e\<close>, it is still in the document, whatever else matches it.
  Moreover, if a content selector matches \<open>e\<close>, the protected set holds the root element,
  which contains every element, so the cleanup removes nothing at all; then, for a
  document that is not of Wikipedia, the conversion hands to the renderer the
  serialisation of all the children of the first match of the first content selector
  that has a match, and its output is the header followed by the rendering of that.
  So the text of a boilerplate element outside that container is not rendered, and the
  text of a boilerplate element inside it is.
\<close>

theorem cleanupDocument_removes_unprotected:
  assumes "(e, n) \<in> set (elems (page_tree page))"
  shows "(\<forall>selector \<in> set selectorsToRemove. matches (page_quirks page) selector n \<longrightarrow>
           (attached (cleanupDocument (parsed page)) e
              \<longleftrightarrow> e \<in> set (contentElements (parsed page))
                  \<or> (\<exists>content \<in> set (contentElements (parsed page)). contains (parsed page) content e)))
       \<and> (\<forall>selector \<in> set contentSelectors. matches (page_quirks page) selector n \<longrightarrow>
            attached (cleanupDocument (parsed page)) e
            \<and> cleanupDocument (parsed page) = parsed page
            \<and> (jsdom E (cleanHTML html) url = Inr page \<and> \<not> is_wikipedia (parsed page) \<longrightarrow>
                 (\<exists>mainContent main.
                    first_match (parsed page) contentSelectors = Some mainContent
                    \<and> node_of (parsed page) mainContent = Some main
                    \<and> htmlToMarkdown E this html url =
                        (case turndown E (turndownService this) (serialize E (childNodes main)) of
                           Inl error \<Rightarrow> Inl error
                         | Inr markdown \<Rightarrow>
                             Inr (format_header (document_title (parsed page)) url
                                    (extractPublishedTime E (parsed page))
                                  @ str ''\<newline>'' @ markdown)))))"
proof (cases "contentElements (parsed page) = []")
  case True
  have fresh: "attached (parsed page) e" by (simp add: attached_def parsed_def)
  have no_content: "\<not> matches (page_quirks page) selector n"
    if "selector \<in> set contentSelectors" for selector
  proof
    assume "matches (page_quirks page) selector n"
    with assms fresh that have "e \<in> set (contentElements (parsed page))"
      by (auto simp: set_contentElements set_querySelectorAll parsed_def)
    with True show False by simp
  qed
  have "\<not> attached (cleanupDocument (parsed page)) e"
    if "selector \<in> set selectorsToRemove" and "matches (page_quirks page) selector n" for selector
    using sweep_nothing_protected [of selectorsToRemove "parsed page"] assms that True
    by (auto simp: cleanupDocument_sweep parsed_def)
  with True no_content show ?thesis by auto
next
  case False
  let ?d = "parsed page"
  from False have root: "[] \<in> set (contentElements ?d)" by (rule root_in_contentElements)
  then have same: "cleanupDocument ?d = ?d"
    by (simp add: cleanupDocument_sweep sweep_root_protected parsed_def)
  have here: "attached ?d e" by (simp add: attached_def parsed_def)
  have inside: "contains ?d [] e" by (simp add: contains_def parsed_def)
  have rendered: "\<exists>mainContent main.
        first_match ?d contentSelectors = Some mainContent
        \<and> node_of ?d mainContent = Some main
        \<and> htmlToMarkdown E this html url =
            (case turndown E (turndownService this) (serialize E (childNodes main)) of
               Inl error \<Rightarrow> Inl error
             | Inr markdown \<Rightarrow>
                 Inr (format_header (document_title ?d) url (extractPublishedTime E ?d)
                      @ str ''\<newline>'' @ markdown))"
    if parse: "jsdom E (cleanHTML html) url = Inr page" and host: "\<not> is_wikipedia ?d"
  proof -
    from False obtain a where "a \<in> set (contentElements ?d)"
      by (cases "contentElements ?d") auto
    then have "\<exists>sel \<in> set contentSelectors. \<exists>el. el \<in> set (querySelectorAll ?d sel)"
      unfolding set_contentElements by blast
    then obtain sel where "sel \<in> set contentSelectors" "querySelectorAll ?d sel \<noteq> []"
      by fastforce
    then have "first_match ?d contentSelectors \<noteq> None"
      by (auto simp: first_match_None)
    then obtain mc where mc: "first_match ?d contentSelectors = Some mc" by auto
    from first_match_Some [OF mc] node_of_querySelectorAll
    obtain main where main: "node_of ?d mc = Some main" by blast
    have selected: "extractMainContent ?d = (Some mc, ?d)"
      using host mc by (simp add: extractMainContent_def)
    have inner: "innerHTML E (attach_rows mc ?d) mc = serialize E (childNodes main)"
      unfolding innerHTML_def live_children_def node_of_def attach_rows_tree
      using live_children_parsed [OF main] main
      by (simp add: live_children_def node_of_def)
    have "htmlToMarkdown E this html url =
            (case turndown E (turndownService this) (serialize E (childNodes main)) of
               Inl error \<Rightarrow> Inl error
             | Inr markdown \<Rightarrow>
                 Inr (format_header (document_title ?d) url (extractPublishedTime E ?d)
                      @ str ''\<newline>'' @ markdown))"
      unfolding htmlToMarkdown_def Let_def parse
      by (simp add: same selected inner)
    with mc main show ?thesis by blast
  qed
  show ?thesis using root same here inside rendered by auto
qed

lemma chrome_page_contentElements:
  "contentElements (parsed (no_doctype chrome_page)) = [[Suc 0, Suc 0], [Suc 0], []]"
  by (simp add: contentElements_def contentSelectors_def sel_defs dom_defs chrome_page_def
        str_def set_add_def parentElement_def)

lemma bare_page_contentElements:
  "contentElements (parsed (no_doctype bare_page)) = []"
  by (simp add: contentElements_def contentSelectors_def sel_defs dom_defs bare_page_def
        str_def set_add_def parentElement_def)

lemma both_page_contentElements:
  "contentElements (parsed (no_doctype both_page)) = [[Suc 0, 0], [Suc 0], []]"
  by (simp add: contentElements_def contentSelectors_def sel_defs dom_defs both_page_def
        str_def set_add_def parentElement_def)

lemma chrome_page_main:
  "first_match (parsed (no_doctype chrome_page)) contentSelectors = Some [Suc 0, Suc 0]"
  by (simp add: contentSelectors_def sel_defs dom_defs chrome_page_def str_def)

lemma chrome_page_title: "document_title (parsed (no_doctype chrome_page)) = str ''Untitled''"
  by (simp add: document_title_def sel_defs dom_defs chrome_page_def str_def truthy_def)

text \<open>
  The theorem at three elements. The article of
  \<^verbatim>\<open><nav>Menu</nav><article>Real content</article><footer>Imprint</footer>\<close> is matched by
  a content selector: it stays, and the output is the header and the content of the
  article. The \<open>nav\<close> of the same boilerplate around a \<open>div\<close> that no content selector
  matches is removed. The \<open>div\<close> of \<^verbatim>\<open><div class="Content Sidebar">Real content</div>\<close>,
  in a document without a doctype, is matched by \<open>.sidebar\<close> and by \<open>.content\<close>: it stays.
\<close>

theorem cleanupDocument_removes_unprotected_witness:
  "([Suc 0, Suc 0], Element (str ''article'') [] [Text (str ''Real content'')])
       \<in> set (elems (page_tree (no_doctype chrome_page)))
   \<and> type_sel ''article'' \<in> set contentSelectors
   \<and> matches (page_quirks (no_doctype chrome_page)) (type_sel ''article'')
        (Element (str ''article'') [] [Text (str ''Real content'')])
   \<and> attached (cleanupDocument (parsed (no_doctype chrome_page))) [Suc 0, Suc 0]
   \<and> attached (cleanupDocument (parsed (no_doctype chrome_page))) [Suc 0, 0]
   \<and> htmlToMarkdown (collaborators_for chrome_page (Inr []))
        (new_WebToMarkdownConverter (collaborators_for chrome_page (Inr [])) None)
        (str ''<nav>Menu</nav><article>Real content</article><footer>Imprint</footer>'') None
      = Inr (str ''Title: Untitled\<newline>\<newline>Markdown Content:\<newline>Real content'')
   \<and> ([Suc 0, 0], Element (str ''nav'') [] [Text (str ''Menu'')])
       \<in> set (elems (page_tree (no_doctype bare_page)))
   \<and> type_sel ''nav'' \<in> set selectorsToRemove
   \<and> matches (page_quirks (no_doctype bare_page)) (type_sel ''nav'')
        (Element (str ''nav'') [] [Text (str ''Menu'')])
   \<and> contentElements (parsed (no_doctype bare_page)) = []
   \<and> \<not> attached (cleanupDocument (parsed (no_doctype bare_page))) [Suc 0, 0]
   \<and> ([Suc 0, 0], Element (str ''div'') [(str ''class'', str ''Content Sidebar'')]
                     [Text (str ''Real content'')])
       \<in> set (elems (page_tree (no_doctype both_page)))
   \<and> class_sel ''sidebar'' \<in> set selectorsToRemove
   \<and> matches (page_quirks (no_doctype both_page)) (class_sel ''sidebar'')
        (Element (str ''div'') [(str ''class'', str ''Content Sidebar'')] [Text (str ''Real content'')])
   \<and> class_sel ''content'' \<in> set contentSelectors
   \<and> matches (page_quirks (no_doctype both_page)) (class_sel ''content'')
        (Element (str ''div'') [(str ''class'', str ''Content Sidebar'')] [Text (str ''Real content'')])
   \<and> [Suc 0, 0] \<in> set (contentElements (parsed (no_doctype both_page)))
   \<and> attached (cleanupDocument (parsed (no_doctype both_page))) [Suc 0, 0]"
proof -
  let ?E = "collaborators_for chrome_page (Inr [])"
  let ?article = "Element (str ''article'') [] [Text (str ''Real content'')]"
  let ?nav = "Element (str ''nav'') [] [Text (str ''Menu'')]"
  let ?div = "Element (str ''div'') [(str ''class'', str ''Content Sidebar'')] [Text (str ''Real content'')]"
  have chrome: "([Suc 0, Suc 0], ?article) \<in> set (elems (page_tree (no_doctype chrome_page)))"
    by (simp add: chrome_page_def no_doctype_def)
  have bare: "([Suc 0, 0], ?nav) \<in> set (elems (page_tree (no_doctype bare_page)))"
    by (simp add: bare_page_def no_doctype_def)
  have both: "([Suc 0, 0], ?div) \<in> set (elems (page_tree (no_doctype both_page)))"
    by (simp add: both_page_def no_doctype_def)
  have sel_article: "type_sel ''article'' \<in> set contentSelectors"
    by (simp add: contentSelectors_def)
  have sel_nav: "type_sel ''nav'' \<in> set selectorsToRemove"
    by (simp add: selectorsToRemove_def)
  have sel_sidebar: "class_sel ''sidebar'' \<in> set selectorsToRemove"
    by (simp add: selectorsToRemove_def)
  have sel_content: "class_sel ''content'' \<in> set contentSelectors"
    by (simp add: contentSelectors_def)
  have article: "matches (page_quirks (no_doctype chrome_page)) (type_sel ''article'') ?article"
    by (simp add: matches_def sel_defs)
  have nav: "matches (page_quirks (no_doctype bare_page)) (type_sel ''nav'') ?nav"
    by (simp add: matches_def sel_defs)
  have sidebar: "matches (page_quirks (no_doctype both_page)) (class_sel ''sidebar'') ?div"
    by (simp add: sel_defs dom_defs str_def)
  have content: "matches (page_quirks (no_doctype both_page)) (class_sel ''content'') ?div"
    by (simp add: sel_defs dom_defs str_def)
  have parse: "jsdom ?E
      (cleanHTML (str ''<nav>Menu</nav><article>Real content</article><footer>Imprint</footer>'')) None
      = Inr (no_doctype chrome_page)"
    by (simp add: collaborators_for_sel)
  have host: "\<not> is_wikipedia (parsed (no_doctype chrome_page))"
    by (simp add: is_wikipedia_def includes_js_def parsed_def no_doctype_def str_def)
  have node: "node_of (parsed (no_doctype chrome_page)) [Suc 0, Suc 0] = Some ?article"
    by (simp add: dom_defs chrome_page_def)
  from cleanupDocument_removes_unprotected
         [OF chrome, where E = ?E and url = None
            and html = "str ''<nav>Menu</nav><article>Real content</article><footer>Imprint</footer>''"
            and this = "new_WebToMarkdownConverter ?E None"]
       sel_article article parse host
  have kept: "attached (cleanupDocument (parsed (no_doctype chrome_page))) [Suc 0, Suc 0]"
    and same: "cleanupDocument (parsed (no_doctype chrome_page)) = parsed (no_doctype chrome_page)"
    and out: "\<exists>mainContent main.
        first_match (parsed (no_doctype chrome_page)) contentSelectors = Some mainContent
        \<and> node_of (parsed (no_doctype chrome_page)) mainContent = Some main
        \<and> htmlToMarkdown ?E (new_WebToMarkdownConverter ?E None)
            (str ''<nav>Menu</nav><article>Real content</article><footer>Imprint</footer>'') None =
            (case turndown ?E (turndownService (new_WebToMarkdownConverter ?E None))
                    (serialize ?E (childNodes main)) of
               Inl error \<Rightarrow> Inl error
             | Inr markdown \<Rightarrow>
                 Inr (format_header (document_title (parsed (no_doctype chrome_page))) None
                        (extractPublishedTime ?E (parsed (no_doctype chrome_page)))
                      @ str ''\<newline>'' @ markdown))"
    by blast+
  have nav_kept: "attached (cleanupDocument (parsed (no_doctype chrome_page))) [Suc 0, 0]"
    unfolding same by (simp add: attached_def parsed_def)
  from out have result: "htmlToMarkdown ?E (new_WebToMarkdownConverter ?E None)
        (str ''<nav>Menu</nav><article>Real content</article><footer>Imprint</footer>'') None
      = Inr (str ''Title: Untitled\<newline>\<newline>Markdown Content:\<newline>Real content'')"
    unfolding chrome_page_main chrome_page_title
    by (auto simp: node collaborators_for_sel extractPublishedTime_no_date format_header_def
          truthy_def str_def)
  have gone: "\<not> attached (cleanupDocument (parsed (no_doctype bare_page))) [Suc 0, 0]"
    using cleanupDocument_removes_unprotected [OF bare] sel_nav nav
    by (auto simp: bare_page_contentElements)
  have protected: "[Suc 0, 0] \<in> set (contentElements (parsed (no_doctype both_page)))"
    by (simp add: both_page_contentElements)
  have stays: "attached (cleanupDocument (parsed (no_doctype both_page))) [Suc 0, 0]"
    using cleanupDocument_removes_unprotected [OF both] sel_sidebar sidebar protected
    by blast
  show ?thesis
    using chrome bare both sel_article sel_nav sel_sidebar sel_content article nav sidebar content
      kept nav_kept result gone protected stays
    by (simp add: bare_page_contentElements)
qed

text \<open>
  The claim as first stated, that the text of \<open>nav\<close> and \<open>footer\<close> around a content
  container is absent from the output, fails when they lie inside the element that is
  selected as the main content: for
  \<^verbatim>\<open><main><nav>Menu</nav><div class="post-content">Real content</div><footer>Imprint</footer></main>\<close>
  the cleanup removes nothing, since the root element is protected and contains
  everything, the main content is the \<open>main\<close> element, the first of the content selectors
  with a match, and the text of \<open>nav\<close> and \<open>footer\<close> is rendered with that of the content.
  (The stand-in parser answers with the tree of that input, and the stand-in renderer
  keeps the text.)
\<close>

theorem cleanupDocument_output_counterexample:
  "attached (cleanupDocument (parsed (no_doctype nested_chrome_page))) [Suc 0, 0, 0]
   \<and> attached (cleanupDocument (parsed (no_doctype nested_chrome_page))) [Suc 0, 0, Suc (Suc 0)]
   \<and> htmlToMarkdown (collaborators_for nested_chrome_page (Inr []))
       (new_WebToMarkdownConverter (collaborators_for nested_chrome_page (Inr [])) None)
       (str ''<main><nav>Menu</nav><div class=post-content>Real content</div><footer>Imprint</footer></main>'')
       None
     = Inr (str ''Title: Untitled\<newline>\<newline>Markdown Content:\<newline>MenuReal contentImprint'')"
proof -
  let ?d = "parsed (no_doctype nested_chrome_page)"
  have title: "document_title ?d = str ''Untitled''"
    by (simp add: document_title_def sel_defs dom_defs nested_chrome_page_def str_def truthy_def)
  have ce: "contentElements ?d = [[Suc 0, 0], [Suc 0], [], [Suc 0, 0, Suc 0]]"
    by (simp add: contentElements_def contentSelectors_def sel_defs dom_defs nested_chrome_page_def
          str_def set_add_def parentElement_def)
  have clean: "cleanupDocument ?d = ?d"
    unfolding cleanupDocument_def ce Let_def
    by (simp add: selectorsToRemove_def sel_defs dom_defs nested_chrome_page_def str_def)
  have main: "extractMainContent ?d = (Some [Suc 0, 0], ?d)"
    by (simp add: extractMainContent_def is_wikipedia_def includes_js_def contentSelectors_def
          sel_defs dom_defs nested_chrome_page_def str_def)
  have rows: "attach_rows [Suc 0, 0] ?d = ?d"
    by (simp add: attach_rows_def sel_defs dom_defs nested_chrome_page_def str_def)
  have inner: "live_children ?d [Suc 0, 0]
      = [Element (str ''nav'') [] [Text (str ''Menu'')],
         Element (str ''div'') [(str ''class'', str ''post-content'')] [Text (str ''Real content'')],
         Element (str ''footer'') [] [Text (str ''Imprint'')]]"
    by (simp add: live_children_def below_def dom_defs nested_chrome_page_def)
  have out: "htmlToMarkdown (collaborators_for nested_chrome_page (Inr []))
       (new_WebToMarkdownConverter (collaborators_for nested_chrome_page (Inr [])) None)
       (str ''<main><nav>Menu</nav><div class=post-content>Real content</div><footer>Imprint</footer></main>'')
       None
     = Inr (str ''Title: Untitled\<newline>\<newline>Markdown Content:\<newline>MenuReal contentImprint'')"
    unfolding htmlToMarkdown_def Let_def collaborators_for_sel
    by (simp add: title clean main rows inner innerHTML_def collaborators_for_sel
          extractPublishedTime_no_date format_header_def truthy_def str_def)
  have kept: "attached (cleanupDocument ?d) [Suc 0, 0, 0]"
    "attached (cleanupDocument ?d) [Suc 0, 0, Suc (Suc 0)]"
    unfolding clean by (simp_all add: attached_def parsed_def)
  from kept out show ?thesis by blast
qed

section \<open>Tidying\<close>

lemma down_from_shift:
  "map Suc (down_from (mn - 1) k) @ (if mn = 0 then [0] else []) = down_from mn (Suc k)"
  by (induction k) (auto simp: le_Suc_eq)

lemma rep_iter_cls:
  "mn + length s \<le> fuel \<Longrightarrow>
     rep_iter (ends (Cls P)) True fuel mn None prev s = down_from mn (length (takeWhile P s))"
proof (induction fuel arbitrary: mn s prev)
  case 0
  then show ?case by simp
next
  case (Suc fuel)
  show ?case
  proof (cases s)
    case Nil
    then show ?thesis by simp
  next
    case (Cons c cs)
    show ?thesis
    proof (cases "P c")
      case False
      with Cons show ?thesis by simp
    next
      case True
      from Suc.prems Cons have "(mn - 1) + length cs \<le> fuel" by simp
      from Suc.IH [OF this]
      have ih: "rep_iter (ends (Cls P)) True fuel (mn - 1) None (Some c) cs
                  = down_from (mn - 1) (length (takeWhile P cs))" .
      have "rep_iter (ends (Cls P)) True (Suc fuel) mn None prev (c # cs)
              = map Suc (down_from (mn - 1) (length (takeWhile P cs))) @ (if mn = 0 then [0] else [])"
        using True ih by (simp add: prev_after_def Let_def)
      then show ?thesis
        using Cons True by (simp only: down_from_shift) simp
    qed
  qed
qed

lemma ends_rep_cls:
  "ends (Rep (Cls P) mn None True) prev s = down_from mn (length (takeWhile P s))"
  by (simp add: rep_iter_cls)

lemma down_from_Nil: "down_from lo hi = [] \<longleftrightarrow> hi < lo"
  by (induction hi) auto

lemma down_from_hd: "lo \<le> hi \<Longrightarrow> \<exists>ns. down_from lo hi = hi # ns"
  by (cases hi) auto

lemma match_parts_re_indent:
  "match_parts re_indent prev s =
     (if at_bol prev then map (\<lambda>n. [0, n]) (down_from 1 (length (takeWhile is_blank s))) else [])"
proof -
  have cls: "(\<lambda>c. c = 0x20 \<or> c = 0x9) = is_blank" by (auto simp: is_blank_def)
  have bol: "ends Bol prev s = (if at_bol prev then [0] else [])"
    by (simp add: at_bol_def split: option.splits)
  show ?thesis
    unfolding re_indent_def plus_def cls match_parts.simps ends_rep_cls bol
    by (simp add: prev_after_def comp_def)
qed

lemma exec_re_indent:
  "exec re_indent prev s =
     (if at_bol prev \<and> 1 \<le> length (takeWhile is_blank s)
      then Some [0, length (takeWhile is_blank s)] else None)"
proof (cases "1 \<le> length (takeWhile is_blank s)")
  case True
  from down_from_hd [OF this] obtain ns
    where "down_from 1 (length (takeWhile is_blank s)) = length (takeWhile is_blank s) # ns" ..
  then show ?thesis
    using True unfolding exec_def match_parts_re_indent by simp
next
  case False
  then have "length (takeWhile is_blank s) < 1" by (simp only: not_le)
  then have "down_from 1 (length (takeWhile is_blank s)) = []" by (simp only: down_from_Nil)
  then show ?thesis
    using False unfolding exec_def match_parts_re_indent by simp
qed

lemma match_parts_re_blank_lines:
  "match_parts re_blank_lines prev s
     = map (\<lambda>n. [n]) (down_from 3 (length (takeWhile (\<lambda>c. c = 0xA) s)))"
  unfolding re_blank_lines_def match_parts.simps ends_rep_cls
  by (simp add: comp_def)

lemma exec_re_blank_lines:
  "exec re_blank_lines prev s =
     (if 3 \<le> length (takeWhile (\<lambda>c. c = 0xA) s)
      then Some [length (takeWhile (\<lambda>c. c = 0xA) s)] else None)"
proof (cases "3 \<le> length (takeWhile (\<lambda>c. c = 0xA) s)")
  case True
  from down_from_hd [OF this] obtain ns
    where "down_from 3 (length (takeWhile (\<lambda>c. c = 0xA) s)) = length (takeWhile (\<lambda>c. c = 0xA) s) # ns" ..
  then show ?thesis
    using True unfolding exec_def match_parts_re_blank_lines by simp
next
  case False
  then have "length (takeWhile (\<lambda>c. c = 0xA) s) < 3" by (simp only: not_le)
  then have "down_from 3 (length (takeWhile (\<lambda>c. c = 0xA) s)) = []" by (simp only: down_from_Nil)
  then show ?thesis
    using False unfolding exec_def match_parts_re_blank_lines by simp
qed

lemma exec_re_link_None:
  "(case s of [] \<Rightarrow> True | c # _ \<Rightarrow> c \<noteq> of_char CHR ''['') \<Longrightarrow> exec re_link prev s = None"
  unfolding exec_def re_link_def lit_def match_parts.simps(2) [of "Cls P" for P] ends.simps(1)
  by (cases s) simp_all

lemma replace_scan_skip:
  "replace_scan rs f k prev s =
     (if length s < k then []
      else if k = 0 then replace_scan rs f 0 prev s
      else replace_scan rs f 0 (Some (s ! (k - 1))) (drop k s))"
proof (induction s arbitrary: k prev)
  case Nil
  show ?case by (cases k) simp_all
next
  case (Cons c cs)
  show ?case
  proof (cases k)
    case 0
    then show ?thesis by simp
  next
    case (Suc j)
    show ?thesis
      unfolding Suc replace_scan.simps(2) Cons.IH [of j "Some c"]
      by (cases j) simp_all
  qed
qed

lemma replace_scan_no_match:
  assumes "\<And>prev t. suffix t s \<Longrightarrow> exec rs prev t = None"
  shows "replace_scan rs f 0 prev s = s"
  using assms
proof (induction s arbitrary: prev)
  case Nil
  from Nil [of "[]" prev] show ?case by simp
next
  case (Cons c cs)
  have here: "exec rs prev (c # cs) = None" by (rule Cons.prems) simp
  have "replace_scan rs f 0 (Some c) cs = cs"
    by (rule Cons.IH) (rule Cons.prems, simp add: suffix_Cons)
  with here show ?case by simp
qed

lemma normalize_no_bracket:
  assumes "of_char CHR ''['' \<notin> set s"
  shows "replace_all re_link f s = s"
  unfolding replace_all_def
proof (rule replace_scan_no_match)
  fix prev t
  assume "suffix t s"
  then have "set t \<subseteq> set s" by (rule set_mono_suffix)
  with assms have "of_char CHR ''['' \<notin> set t" by auto
  then show "exec re_link prev t = None"
    by (intro exec_re_link_None) (cases t, auto)
qed

lemma three_newlines:
  assumes "3 \<le> length (takeWhile (\<lambda>c. c = (0xA :: jschar)) s)"
  shows "sublist [0xA, 0xA, 0xA] s"
proof -
  have split: "s = takeWhile (\<lambda>c. c = 0xA) s @ dropWhile (\<lambda>c. c = 0xA) s" by simp
  obtain a b c r where run: "takeWhile (\<lambda>c. c = (0xA :: jschar)) s = a # b # c # r"
    using assms by (auto simp: numeral_3_eq_3 Suc_le_length_iff)
  have "\<forall>x \<in> set (takeWhile (\<lambda>c. c = (0xA :: jschar)) s). x = 0xA"
    by (auto dest: set_takeWhileD)
  with run have "a = 0xA" "b = 0xA" "c = 0xA" by auto
  with run split have "s = [] @ [0xA, 0xA, 0xA] @ (r @ dropWhile (\<lambda>c. c = 0xA) s)"
    by (metis append_Cons append_Nil)
  then show ?thesis unfolding sublist_def by blast
qed

lemma squeeze_no_run:
  assumes "\<not> sublist [0xA, 0xA, 0xA] s"
  shows "replace_all re_blank_lines f s = s"
  unfolding replace_all_def
proof (rule replace_scan_no_match)
  fix prev t
  assume "suffix t s"
  then have "sublist t s" by (rule suffix_imp_sublist)
  with assms have "\<not> sublist [0xA, 0xA, 0xA] t"
    using sublist_order.order_trans by blast
  then have "\<not> 3 \<le> length (takeWhile (\<lambda>c. c = (0xA :: jschar)) t)"
    using three_newlines by blast
  then show "exec re_blank_lines prev t = None"
    by (simp add: exec_re_blank_lines)
qed

lemma blank_not_terminator: "is_blank c \<Longrightarrow> \<not> at_bol (Some c)"
  by (auto simp: is_blank_def at_bol_def is_line_terminator_def)

lemma blank_is_ws: "is_blank c \<Longrightarrow> is_ws c"
  by (auto simp: is_blank_def is_ws_def)

lemma takeWhile_blank_pos: "1 \<le> length (takeWhile is_blank s) \<longleftrightarrow> (\<exists>c cs. s = c # cs \<and> is_blank c)"
  by (cases s) auto

lemma strip_no_indent:
  "no_indent prev s \<Longrightarrow> replace_scan re_indent f 0 prev s = s"
proof (induction s arbitrary: prev)
  case Nil
  show ?case by (simp add: exec_re_indent)
next
  case (Cons c cs)
  then have "exec re_indent prev (c # cs) = None"
    by (auto simp: exec_re_indent)
  with Cons show ?case by simp
qed

lemma strip_Nil: "replace_scan re_indent (\<lambda>_. []) 0 prev [] = []"
  by (simp add: exec_re_indent)

lemma strip_copy:
  "\<not> (at_bol prev \<and> is_blank c) \<Longrightarrow>
     replace_scan re_indent (\<lambda>_. []) 0 prev (c # cs) = c # replace_scan re_indent (\<lambda>_. []) 0 (Some c) cs"
  by (auto simp: exec_re_indent)

lemma strip_run:
  assumes "at_bol prev" "is_blank c"
  shows "\<exists>b. is_blank b \<and>
           replace_scan re_indent (\<lambda>_. []) 0 prev (c # cs)
             = replace_scan re_indent (\<lambda>_. []) 0 (Some b) (dropWhile is_blank cs)"
proof -
  let ?run = "takeWhile is_blank (c # cs)"
  let ?k = "length ?run"
  have k: "?k = Suc (length (takeWhile is_blank cs))" using assms by simp
  have first: "replace_scan re_indent (\<lambda>_. []) 0 prev (c # cs)
                 = replace_scan re_indent (\<lambda>_. []) (length (takeWhile is_blank cs)) (Some c) cs"
    using assms by (simp add: exec_re_indent)
  show ?thesis
  proof (cases "takeWhile is_blank cs = []")
    case True
    then have "dropWhile is_blank cs = cs"
      by (metis append_Nil takeWhile_dropWhile_id)
    with first True assms show ?thesis by auto
  next
    case False
    let ?j = "length (takeWhile is_blank cs)"
    from False have pos: "0 < ?j" by simp
    have le: "?j \<le> length cs" by (rule length_takeWhile_le)
    have nth: "cs ! (?j - 1) = takeWhile is_blank cs ! (?j - 1)"
      using pos by (simp add: takeWhile_nth)
    have "takeWhile is_blank cs ! (?j - 1) \<in> set (takeWhile is_blank cs)"
      using pos by simp
    then have blank: "is_blank (cs ! (?j - 1))"
      unfolding nth by (rule set_takeWhileD [THEN conjunct2])
    have "replace_scan re_indent (\<lambda>_. []) ?j (Some c) cs
            = replace_scan re_indent (\<lambda>_. []) 0 (Some (cs ! (?j - 1))) (drop ?j cs)"
      using pos le by (subst replace_scan_skip) simp
    with first blank show ?thesis by (auto simp: dropWhile_eq_drop)
  qed
qed

lemma strip_after_run:
  assumes "is_blank b"
  shows "replace_scan re_indent (\<lambda>_. []) 0 (Some b) s
           = (case s of [] \<Rightarrow> []
              | c # t \<Rightarrow> c # replace_scan re_indent (\<lambda>_. []) 0 (Some c) t)"
  using assms by (cases s) (auto simp: exec_re_indent blank_not_terminator)

lemma no_indent_strip:
  "no_indent prev (replace_scan re_indent (\<lambda>_. []) 0 prev s)"
proof (induction s arbitrary: prev rule: length_induct)
  case (1 s)
  show ?case
  proof (cases s)
    case Nil
    show ?thesis unfolding Nil by (simp add: exec_re_indent)
  next
    case (Cons c cs)
    show ?thesis
    proof (cases "at_bol prev \<and> is_blank c")
      case False
      have "no_indent (Some c) (replace_scan re_indent (\<lambda>_. []) 0 (Some c) cs)"
        using 1 Cons by simp
      with False show ?thesis unfolding Cons strip_copy [OF False] by simp
    next
      case True
      from strip_run [of prev c cs] True obtain b where b: "is_blank b"
        and run: "replace_scan re_indent (\<lambda>_. []) 0 prev (c # cs)
                    = replace_scan re_indent (\<lambda>_. []) 0 (Some b) (dropWhile is_blank cs)"
        by blast
      show ?thesis
      proof (cases "dropWhile is_blank cs")
        case Nil
        show ?thesis unfolding Cons run strip_after_run [OF b] Nil by simp
      next
        case (Cons c' t)
        then have "\<not> is_blank c'" by (metis hd_dropWhile list.sel(1) list.distinct(1))
        moreover have "length t < length s"
        proof -
          have "length (dropWhile is_blank cs) \<le> length cs" by (rule length_dropWhile_le)
          with Cons \<open>s = c # cs\<close> show ?thesis by simp
        qed
        then have "no_indent (Some c') (replace_scan re_indent (\<lambda>_. []) 0 (Some c') t)"
          using 1 by simp
        ultimately show ?thesis
          unfolding \<open>s = c # cs\<close> run strip_after_run [OF b] Cons by simp
      qed
    qed
  qed
qed

lemma no_indent_dropWhile:
  "no_indent prev s \<Longrightarrow> no_indent prev' (dropWhile is_ws s)"
proof (induction s arbitrary: prev)
  case Nil
  show ?case by simp
next
  case (Cons c cs)
  then show ?case by (auto dest: blank_is_ws)
qed

lemma no_indent_prefix: "no_indent prev (u @ v) \<Longrightarrow> no_indent prev u"
  by (induction u arbitrary: prev) auto

lemma rev_dropWhile_rev_prefix:
  "s = rev (dropWhile P (rev s)) @ rev (takeWhile P (rev s))"
proof -
  have "rev s = takeWhile P (rev s) @ dropWhile P (rev s)" by simp
  then have "rev (rev s) = rev (takeWhile P (rev s) @ dropWhile P (rev s))" by (rule arg_cong)
  then show ?thesis by (simp only: rev_rev_ident rev_append)
qed

lemma no_indent_trim: "no_indent prev s \<Longrightarrow> no_indent prev' (trim s)"
proof -
  assume "no_indent prev s"
  then have "no_indent prev' (dropWhile is_ws s)" by (rule no_indent_dropWhile)
  then have "no_indent prev' (rev (dropWhile is_ws (rev (dropWhile is_ws s)))
               @ rev (takeWhile is_ws (rev (dropWhile is_ws s))))"
    using rev_dropWhile_rev_prefix [of "dropWhile is_ws s" is_ws] by simp
  then show ?thesis unfolding trim_def by (rule no_indent_prefix)
qed

lemma dropWhile_idem: "dropWhile P (dropWhile P s) = dropWhile P s"
  by (induction s) auto

lemma trim_trim: "trim (trim s) = trim s"
proof -
  let ?t = "dropWhile is_ws s"
  let ?u = "dropWhile is_ws (rev ?t)"
  have front: "dropWhile is_ws (rev ?u) = rev ?u"
  proof (cases "rev ?u")
    case Nil
    show ?thesis unfolding Nil by simp
  next
    case (Cons c cs)
    have pre: "prefix (rev ?u) ?t"
      using rev_dropWhile_rev_prefix [of ?t is_ws] by (metis prefixI)
    with Cons obtain r where "?t = c # r" by (auto simp: prefix_def)
    then have "\<not> is_ws c" by (metis hd_dropWhile list.sel(1) list.distinct(1))
    with Cons show ?thesis by simp
  qed
  show ?thesis
    unfolding trim_def front by (simp add: dropWhile_idem)
qed

lemma tidyMarkdown_passes:
  "tidyMarkdown x =
     trim (replace_all re_indent (\<lambda>_. [])
             (replace_all re_blank_lines (\<lambda>_. str ''\<newline>\<newline>'') (normalize_links x)))"
  by (simp add: tidyMarkdown_def normalize_links_def Let_def)

lemma replace_scan_fresh:
  assumes "\<And>g. c \<notin> set (f g)" and "c \<notin> set s"
  shows "c \<notin> set (replace_scan rs f k prev s)"
  using assms(2)
proof (induction s arbitrary: k prev)
  case Nil
  show ?case
    by (cases k; cases "exec rs prev []") (simp_all add: assms(1))
next
  case (Cons a s)
  then have rest: "c \<notin> set (replace_scan rs f j p s)" for j p by simp
  from Cons.prems have differ: "c \<noteq> a" by auto
  show ?case
  proof (cases k)
    case (Suc j)
    then show ?thesis using rest by simp
  next
    case 0
    show ?thesis
      unfolding 0
      by (cases "exec rs prev (a # s)") (simp_all add: assms(1) rest differ)
  qed
qed

lemma set_trim: "set (trim s) \<subseteq> set s"
proof -
  have "set (trim s) \<subseteq> set (dropWhile is_ws s)"
    unfolding trim_def using set_dropWhileD [of _ is_ws "rev (dropWhile is_ws s)"] by auto
  also have "\<dots> \<subseteq> set s" by (auto dest: set_dropWhileD)
  finally show ?thesis .
qed

lemma tidyMarkdown_no_bracket:
  assumes "of_char CHR ''['' \<notin> set x"
  shows "of_char CHR ''['' \<notin> set (tidyMarkdown x)"
proof -
  let ?b = "of_char CHR ''['' :: jschar"
  have links: "normalize_links x = x"
    unfolding normalize_links_def using assms by (rule normalize_no_bracket)
  have fresh: "?b \<notin> set (str ''\<newline>\<newline>'')" by (simp add: str_def)
  have "?b \<notin> set (replace_all re_blank_lines (\<lambda>_. str ''\<newline>\<newline>'') x)"
    unfolding replace_all_def by (rule replace_scan_fresh) (rule fresh, rule assms)
  then have "?b \<notin> set (replace_all re_indent (\<lambda>_. [])
                        (replace_all re_blank_lines (\<lambda>_. str ''\<newline>\<newline>'') x))"
    unfolding replace_all_def by (rule replace_scan_fresh [rotated]) simp
  then show ?thesis
    unfolding tidyMarkdown_passes links using set_trim by blast
qed

lemma tidyMarkdown_stable:
  assumes "normalize_links (tidyMarkdown x) = tidyMarkdown x \<or> of_char CHR ''['' \<notin> set x"
      and "\<not> sublist (str ''\<newline>\<newline>\<newline>'') (tidyMarkdown x)"
  shows "tidyMarkdown (tidyMarkdown x) = tidyMarkdown x"
proof -
  let ?y = "tidyMarkdown x"
  have links: "normalize_links ?y = ?y"
  proof -
    have "normalize_links ?y = ?y" if "of_char CHR ''['' \<notin> set x"
      unfolding normalize_links_def
      using tidyMarkdown_no_bracket [OF that] by (rule normalize_no_bracket)
    with assms(1) show ?thesis by blast
  qed
  have squeeze: "replace_all re_blank_lines (\<lambda>_. str ''\<newline>\<newline>'') ?y = ?y"
    using assms(2) by (intro squeeze_no_run) (simp add: str_def)
  have "no_indent None ?y"
    unfolding tidyMarkdown_passes replace_all_def
    by (rule no_indent_trim) (rule no_indent_strip)
  then have strip: "replace_all re_indent (\<lambda>_. []) ?y = ?y"
    unfolding replace_all_def by (rule strip_no_indent)
  have "trim ?y = ?y"
    unfolding tidyMarkdown_passes by (rule trim_trim)
  then show ?thesis
    by (subst tidyMarkdown_passes) (simp only: links squeeze strip)
qed

lemma replace_scan_length:
  assumes fit: "\<And>prev t ns. exec rs prev t = Some ns \<Longrightarrow>
                  length (f (pieces ns t)) \<le> sum_list ns \<and> sum_list ns \<le> length t"
  shows "length (replace_scan rs f 0 prev s) \<le> length s"
proof (induction s arbitrary: prev rule: length_induct)
  case (1 s)
  show ?case
  proof (cases s)
    case Nil
    show ?thesis
    proof (cases "exec rs prev []")
      case None
      then show ?thesis unfolding Nil by simp
    next
      case (Some ns)
      from fit [OF Some] have "length (f (pieces ns [])) \<le> 0" by (metis list.size(3) order_trans)
      with Some show ?thesis unfolding Nil by simp
    qed
  next
    case (Cons c cs)
    have rest: "length (replace_scan rs f 0 p t) \<le> length t" if "length t \<le> length cs" for p t
      using 1 that Cons by simp
    show ?thesis
    proof (cases "exec rs prev (c # cs)")
      case None
      then show ?thesis unfolding Cons using rest [of cs "Some c"] by simp
    next
      case (Some ns)
      from fit [OF Some] have short: "length (f (pieces ns (c # cs))) \<le> sum_list ns"
        and inside: "sum_list ns \<le> Suc (length cs)" by simp_all
      define n where "n = sum_list ns"
      have step: "replace_scan rs f 0 prev (c # cs)
                    = (if n = 0 then f (pieces ns (c # cs)) @ c # replace_scan rs f 0 (Some c) cs
                       else f (pieces ns (c # cs)) @ replace_scan rs f (n - 1) (Some c) cs)"
        unfolding n_def using Some by (simp del: sum_list_eq_0_iff)
      from short inside have short': "length (f (pieces ns (c # cs))) \<le> n" and inside': "n \<le> Suc (length cs)"
        unfolding n_def by simp_all
      show ?thesis
      proof (cases "n = 0")
        case True
        with short' show ?thesis unfolding Cons step using rest [of cs "Some c"] by simp
      next
        case False
        have "length (replace_scan rs f (n - 1) (Some c) cs) \<le> length cs - (n - 1)"
          using inside' False rest [of "drop (n - 1) cs"] rest [of cs]
          by (subst replace_scan_skip) auto
        with False short' inside' show ?thesis unfolding Cons step by simp
      qed
    qed
  qed
qed

lemma length_trim: "length (trim s) \<le> length s"
proof -
  have "length (trim s) \<le> length (dropWhile is_ws s)"
    unfolding trim_def using length_dropWhile_le [of is_ws "rev (dropWhile is_ws s)"] by simp
  also have "\<dots> \<le> length s" by (rule length_dropWhile_le)
  finally show ?thesis .
qed

lemma length_takeWhile_prefix3:
  "prefix [0xA, 0xA, 0xA] s \<Longrightarrow> 3 \<le> length (takeWhile (\<lambda>c. c = (0xA :: jschar)) s)"
  by (auto simp: prefix_def)

lemma squeeze_shrinks:
  "sublist [0xA, 0xA, 0xA] s \<Longrightarrow>
     length (replace_scan re_blank_lines (\<lambda>_. str ''\<newline>\<newline>'') 0 prev s) < length s"
proof (induction s arbitrary: prev)
  case Nil
  then show ?case by simp
next
  case (Cons c cs)
  define k where "k = length (takeWhile (\<lambda>c. c = (0xA :: jschar)) (c # cs))"
  have "k \<le> length (c # cs)"
    unfolding k_def by (rule length_takeWhile_le)
  then have le: "k \<le> Suc (length cs)" by simp
  have here: "exec re_blank_lines prev (c # cs) = (if 3 \<le> k then Some [k] else None)"
    unfolding k_def by (rule exec_re_blank_lines)
  have fit: "length ((\<lambda>_. str ''\<newline>\<newline>'') (pieces ns t)) \<le> sum_list ns \<and> sum_list ns \<le> length t"
    if "exec re_blank_lines p t = Some ns" for p t ns
    using that length_takeWhile_le [of "\<lambda>c. c = (0xA :: jschar)" t]
    by (auto simp: exec_re_blank_lines str_def split: if_splits)
  have rest: "length (replace_scan re_blank_lines (\<lambda>_. str ''\<newline>\<newline>'') 0 p t) \<le> length t"
    for p t by (rule replace_scan_length) (rule fit)
  show ?case
  proof (cases "3 \<le> k")
    case True
    have "length (replace_scan re_blank_lines (\<lambda>_. str ''\<newline>\<newline>'') (k - 1) (Some c) cs)
            \<le> length cs - (k - 1)"
      using le True rest [of _ "drop (k - 1) cs"]
      by (subst replace_scan_skip) auto
    with True le show ?thesis
      unfolding replace_scan.simps here by (simp add: str_def)
  next
    case False
    then have "\<not> prefix [0xA, 0xA, 0xA] (c # cs)"
      unfolding k_def using length_takeWhile_prefix3 by blast
    with Cons.prems have "sublist [0xA, 0xA, 0xA] cs"
      by (auto simp: sublist_Cons_right)
    from Cons.IH [OF this] False show ?thesis
      unfolding replace_scan.simps here by simp
  qed
qed

lemma strip_length:
  "length (replace_all re_indent (\<lambda>_. []) s) \<le> length s"
  unfolding replace_all_def
proof (rule replace_scan_length)
  fix prev t ns
  assume "exec re_indent prev t = Some ns"
  then show "length ((\<lambda>_. []) (pieces ns t)) \<le> sum_list ns \<and> sum_list ns \<le> length t"
    using length_takeWhile_le [of is_blank t]
    by (auto simp: exec_re_indent split: if_splits)
qed

lemma tidyMarkdown_changes_runs:
  assumes "normalize_links y = y" and "sublist (str ''\<newline>\<newline>\<newline>'') y"
  shows "tidyMarkdown y \<noteq> y"
proof -
  have "sublist [0xA, 0xA, 0xA] y" using assms(2) by (simp add: str_def)
  then have "length (replace_all re_blank_lines (\<lambda>_. str ''\<newline>\<newline>'') y) < length y"
    unfolding replace_all_def by (rule squeeze_shrinks)
  moreover have "length (tidyMarkdown y)
                   \<le> length (replace_all re_blank_lines (\<lambda>_. str ''\<newline>\<newline>'') y)"
    unfolding tidyMarkdown_passes assms(1)
    using length_trim strip_length order_trans by blast
  ultimately have "length (tidyMarkdown y) < length y" by simp
  then show ?thesis by auto
qed

lemma tidy_link_example:
  "tidyMarkdown (str ''  see [ my   link ]\<newline> ( http://x y )  \<newline>\<newline>\<newline>\<newline>  z '')
     = str ''see [my link](http://xy)  \<newline>\<newline>z''"
  by code_simp

lemma tidy_link_example_stable:
  "normalize_links (str ''see [my link](http://xy)  \<newline>\<newline>z'') = str ''see [my link](http://xy)  \<newline>\<newline>z''"
  by code_simp

lemma tidy_link_example_no_run:
  "\<not> sublist (str ''\<newline>\<newline>\<newline>'') (str ''see [my link](http://xy)  \<newline>\<newline>z'')"
  by (simp add: str_def sublist_Cons_right)

text \<open>
  C3, as amended. Let the link pass leave the output of \<open>tidyMarkdown\<close> unchanged, which
  holds in particular when the input has no \<open>[\<close>. Then applying \<open>tidyMarkdown\<close> to its
  output changes nothing exactly when that output has no run of three or more line
  feeds.
\<close>

theorem tidyMarkdown_idempotent_iff:
  assumes "normalize_links (tidyMarkdown x) = tidyMarkdown x \<or> of_char CHR ''['' \<notin> set x"
  shows "tidyMarkdown (tidyMarkdown x) = tidyMarkdown x
           \<longleftrightarrow> \<not> sublist (str ''\<newline>\<newline>\<newline>'') (tidyMarkdown x)"
proof
  assume "tidyMarkdown (tidyMarkdown x) = tidyMarkdown x"
  moreover have "normalize_links (tidyMarkdown x) = tidyMarkdown x"
  proof -
    have "normalize_links (tidyMarkdown x) = tidyMarkdown x" if "of_char CHR ''['' \<notin> set x"
      unfolding normalize_links_def
      using tidyMarkdown_no_bracket [OF that] by (rule normalize_no_bracket)
    with assms show ?thesis by blast
  qed
  ultimately show "\<not> sublist (str ''\<newline>\<newline>\<newline>'') (tidyMarkdown x)"
    using tidyMarkdown_changes_runs by blast
next
  assume "\<not> sublist (str ''\<newline>\<newline>\<newline>'') (tidyMarkdown x)"
  with assms show "tidyMarkdown (tidyMarkdown x) = tidyMarkdown x"
    by (rule tidyMarkdown_stable)
qed

theorem tidyMarkdown_idempotent_iff_witness:
  "normalize_links (tidyMarkdown (str ''  see [ my   link ]\<newline> ( http://x y )  \<newline>\<newline>\<newline>\<newline>  z ''))
     = tidyMarkdown (str ''  see [ my   link ]\<newline> ( http://x y )  \<newline>\<newline>\<newline>\<newline>  z '')
   \<and> \<not> sublist (str ''\<newline>\<newline>\<newline>'')
         (tidyMarkdown (str ''  see [ my   link ]\<newline> ( http://x y )  \<newline>\<newline>\<newline>\<newline>  z ''))
   \<and> tidyMarkdown (tidyMarkdown (str ''  see [ my   link ]\<newline> ( http://x y )  \<newline>\<newline>\<newline>\<newline>  z ''))
       = str ''see [my link](http://xy)  \<newline>\<newline>z''"
  using tidyMarkdown_idempotent_iff
          [of "str ''  see [ my   link ]\<newline> ( http://x y )  \<newline>\<newline>\<newline>\<newline>  z ''"]
  by (simp only: tidy_link_example tidy_link_example_stable tidy_link_example_no_run) simp

text \<open>
  The claim as first stated fails. The blank lines are squeezed before the indentation
  is stripped, so lines made of spaces leave a run of three line feeds behind, which the
  next application squeezes.
\<close>

theorem tidyMarkdown_idempotent_counterexample:
  "tidyMarkdown (str ''a\<newline> \<newline> \<newline>b'') = str ''a\<newline>\<newline>\<newline>b''
   \<and> tidyMarkdown (tidyMarkdown (str ''a\<newline> \<newline> \<newline>b'')) = str ''a\<newline>\<newline>b''"
  by code_simp

text \<open>
  The link pass alone is not idempotent either: a link that it rewrites can complete a
  link that starts further left and was no match before.
\<close>

lemma tidyMarkdown_links_not_idempotent:
  "tidyMarkdown (str ''[\<newline>[\<newline> a](b)'') = str ''[\<newline>[a](b)''
   \<and> tidyMarkdown (tidyMarkdown (str ''[\<newline>[\<newline> a](b)'')) = str ''[[a](b)''"
  by code_simp

end
